theory Spec2Isabelle
  imports Main "HOL-Library.Word"
begin

section \<open>Values of the program\<close>

subsection \<open>Strings and numbers\<close>

text \<open>
  A JavaScript string is a sequence of 16-bit code units; \<open>trim\<close> and the sentinel
  texts of the reconciler depend on code units beyond ASCII, so strings are lists of
  16-bit words. \<open>js\<close> turns an ASCII literal into such a string. Property names are
  only ever compared for equality and are kept as HOL strings.

  The numbers of this program are image counts, indices and clock readings (the response
  schema asks for \<open>Type.INTEGER\<close>, the selects offer whole numbers): they are \<open>int\<close>
  and \<open>nat\<close>.
\<close>

type_synonym jschar = "16 word"
type_synonym jsstring = "jschar list"

definition js :: "string \<Rightarrow> jsstring" where
  "js s = map (\<lambda>c. of_nat (of_char c)) s"

text \<open>\<open>Number.prototype.toString\<close> on a non-negative whole number: its decimal digits.\<close>

fun digits :: "nat \<Rightarrow> string" where
  "digits n =
     (if n < 10 then [char_of (48 + n)]
      else digits (n div 10) @ [char_of (48 + n mod 10)])"

declare digits.simps [simp del]

datatype error =
    TypeError
  | SyntaxError
  | InvalidResponseStructure
  | NetworkError
  | QuotaExceededError
  | SecurityError

subsection \<open>Parsed JSON\<close>

text \<open>
  \<open>JSON.parse\<close> returns an untyped value and the code reads it as \<open>any\<close>. An object is
  a list of its own properties (each name once); a property that is missing reads as
  \<open>undefined\<close>.
\<close>

datatype jsval =
    JUndefined
  | JNull
  | JBool bool
  | JNum int
  | JStr jsstring
  | JArr "jsval list"
  | JObj "(string \<times> jsval) list"

subsection \<open>types.ts\<close>

text \<open>
  The interfaces of the source as records. A field that several interfaces share gets
  the interface as a prefix (\<open>id\<close> is \<open>scene_id\<close>, \<open>row_id\<close>, \<open>item_id\<close>; likewise
  \<open>timestamp\<close>, \<open>rows\<close>, \<open>settings\<close>, \<open>scenes\<close> of a history item); an optional
  field (\<open>aiSuggestedCount?\<close>, \<open>isRegenerating?\<close>, \<open>duration?\<close>) is an option.
\<close>

record PromptSet =
  t2iEn :: jsstring
  t2iZh :: jsstring
  i2vEn :: jsstring
  i2vZh :: jsstring

record SceneData =
  scene_id :: jsstring
  originalScript :: jsstring
  imageCount :: int
  aiSuggestedCount :: "int option"
  reasoningEn :: jsstring
  reasoningZh :: jsstring
  prompts :: "PromptSet list"
  isRegenerating :: "bool option"

record GenerationSettings =
  defaultImageCount :: int
  artStyle :: jsstring
  aspectRatio :: jsstring

datatype GenerationStatus = IDLE | GENERATING | COMPLETE | ERROR

record ScriptRow =
  row_id :: jsstring
  row_timestamp :: jsstring
  content :: jsstring
  duration :: "jsstring option"

datatype HistorySource = Script | Prompt | All | Auto

record HistoryItem =
  item_id :: jsstring
  source :: HistorySource
  item_timestamp :: nat
  item_rows :: "ScriptRow list"
  item_settings :: GenerationSettings
  item_scenes :: "SceneData list"

section \<open>Slot fallback of the scene card and the exporters\<close>

text \<open>
  \<open>scene.prompts[i] || scene.prompts[scene.prompts.length - 1] || scene.prompts[0]\<close>,
  written four times (SceneCard, exportToTxt, exportToDocx, exportToPdf). Reading an
  array outside its range gives \<open>undefined\<close>, here \<open>None\<close>; a PromptSet is an
  object and hence truthy, so \<open>||\<close> keeps the first operand that is defined.
\<close>

definition at_index :: "'a list \<Rightarrow> int \<Rightarrow> 'a option" where
  "at_index xs i = (if 0 \<le> i \<and> i < int (length xs) then Some (xs ! nat i) else None)"

definition or_else :: "'a option \<Rightarrow> 'a option \<Rightarrow> 'a option" where
  "or_else a b = (case a of Some x \<Rightarrow> Some x | None \<Rightarrow> b)"

definition slotPrompt :: "PromptSet list \<Rightarrow> nat \<Rightarrow> PromptSet option" where
  "slotPrompt ps i =
     or_else (or_else (at_index ps (int i)) (at_index ps (int (length ps) - 1)))
       (at_index ps 0)"

text \<open>
  Each site then reads the four fields of the selected value (\<open>prompt.t2iEn\<close> ...);
  on \<open>undefined\<close> that read throws a TypeError.
\<close>

definition readField :: "(PromptSet \<Rightarrow> jsstring) \<Rightarrow> PromptSet option \<Rightarrow> error + jsstring" where
  "readField f p = (case p of None \<Rightarrow> Inl TypeError | Some q \<Rightarrow> Inr (f q))"

text \<open>
  The slots of a scene: \<open>for (let i = 0; i < count; i++)\<close> in the text and document
  exporters, \<open>Array.from({length: scene.imageCount})\<close> in the card and the print view.
\<close>

definition sceneSlots :: "SceneData \<Rightarrow> PromptSet option list" where
  "sceneSlots s = map (slotPrompt (prompts s)) [0 ..< nat (imageCount s)]"

section \<open>Scene store\<close>

text \<open>\<open>prev.map(s => s.id === id ? { ...s, imageCount: count } : s)\<close>\<close>

definition handleUpdateImageCount :: "jsstring \<Rightarrow> int \<Rightarrow> SceneData list \<Rightarrow> SceneData list" where
  "handleUpdateImageCount tid n prev =
     map (\<lambda>s. if scene_id s = tid then s\<lparr>imageCount := n\<rparr> else s) prev"

text \<open>
  \<open>regenerateScene\<close> resolves to a \<open>Partial<SceneData>\<close>: every field may be missing.
  \<open>{ ...s, ...updatedData, isRegenerating: false }\<close> overwrites the fields it carries.
\<close>

record SceneUpdate =
  upd_id :: "jsstring option"
  upd_originalScript :: "jsstring option"
  upd_imageCount :: "int option"
  upd_aiSuggestedCount :: "int option option"
  upd_reasoningEn :: "jsstring option"
  upd_reasoningZh :: "jsstring option"
  upd_prompts :: "PromptSet list option"
  upd_isRegenerating :: "bool option option"

definition overwrite :: "'a \<Rightarrow> 'a option \<Rightarrow> 'a" where
  "overwrite old new = (case new of None \<Rightarrow> old | Some v \<Rightarrow> v)"

definition spreadUpdate :: "SceneData \<Rightarrow> SceneUpdate \<Rightarrow> SceneData" where
  "spreadUpdate s u =
     \<lparr>scene_id = overwrite (scene_id s) (upd_id u),
      originalScript = overwrite (originalScript s) (upd_originalScript u),
      imageCount = overwrite (imageCount s) (upd_imageCount u),
      aiSuggestedCount = overwrite (aiSuggestedCount s) (upd_aiSuggestedCount u),
      reasoningEn = overwrite (reasoningEn s) (upd_reasoningEn u),
      reasoningZh = overwrite (reasoningZh s) (upd_reasoningZh u),
      prompts = overwrite (prompts s) (upd_prompts u),
      isRegenerating = overwrite (isRegenerating s) (upd_isRegenerating u)\<rparr>"

section \<open>Application state (App.tsx)\<close>

text \<open>
  The browser's key-value store holds one item, \<open>script2prompt_history\<close>. Its text is
  empty, or text that \<open>JSON.parse\<close> rejects, or the serialisation of a history log
  (what \<open>JSON.stringify\<close> wrote), or text that parses to some other value \<open>v\<close>
  (\<open>null\<close>, \<open>{}\<close>, \<open>5\<close>, ...), which is no log. The store's operations can throw
  (access denied on a read, quota exceeded on a write): \<open>readFault\<close> and \<open>writeFault\<close>
  say whether they do.
\<close>

datatype Payload = EmptyText | Unparsable | Serialized "HistoryItem list" | OtherJson jsval

record Storage =
  stored :: "Payload option"
  readFault :: "error option"
  writeFault :: "error option"

definition getItem :: "Storage \<Rightarrow> error + Payload option" where
  "getItem store = (case readFault store of Some e \<Rightarrow> Inl e | None \<Rightarrow> Inr (stored store))"

definition setItem :: "Payload \<Rightarrow> Storage \<Rightarrow> error + Storage" where
  "setItem p store =
     (case writeFault store of Some e \<Rightarrow> Inl e | None \<Rightarrow> Inr (store\<lparr>stored := Some p\<rparr>))"

record AppState =
  rows :: "ScriptRow list"
  settings :: GenerationSettings
  scenes :: "SceneData list"
  status :: GenerationStatus
  errorMsg :: "jsstring option"
  activeSettings :: "GenerationSettings option"
  showHistory :: bool
  history :: "HistoryItem list"
  localStorage :: Storage
  console :: "error list"

text \<open>
  A handler returns the state it leaves and the exception that escapes it, if any. State
  setters called before a throw have taken effect.
\<close>

type_synonym outcome = "AppState \<times> error option"

text \<open>
  The mount effect: \<open>getItem\<close> stands before the \<open>try\<close>, \<open>JSON.parse\<close> inside it,
  and \<open>setHistory\<close> takes whatever was parsed. The history state is typed
  \<open>HistoryItem[]\<close>, and an \<open>AppState\<close> is a state in which it holds a log. After a
  payload that parses to a value that is no log, the history state holds that value:
  \<open>WithoutLog v st\<close>, where \<open>st\<close> gives the other state variables.
\<close>

datatype MountResult =
    WithLog AppState "error option"
  | WithoutLog jsval AppState

definition loadHistoryOnMount :: "AppState \<Rightarrow> MountResult" where
  "loadHistoryOnMount st =
     (case getItem (localStorage st) of
        Inl e \<Rightarrow> WithLog st (Some e)
      | Inr None \<Rightarrow> WithLog st None
      | Inr (Some EmptyText) \<Rightarrow> WithLog st None
      | Inr (Some Unparsable) \<Rightarrow> WithLog (st\<lparr>console := SyntaxError # console st\<rparr>) None
      | Inr (Some (Serialized h)) \<Rightarrow> WithLog (st\<lparr>history := h\<rparr>) None
      | Inr (Some (OtherJson v)) \<Rightarrow> WithoutLog v st)"

text \<open>
  In a state whose history holds a value \<open>v\<close> that is no log, \<open>saveToHistory\<close> begins
  with the array literal \<open>[newItem, ...history]\<close>, which iterates \<open>v\<close>: an array or a
  string is iterable, at any other value the literal throws a TypeError, before any
  setter or write. \<open>deleteHistoryItem\<close> begins with
  \<open>history.filter(item => item.id !== id)\<close>: a TypeError unless \<open>v\<close> is an array, and
  in the callback at an element that is \<open>null\<close>.
\<close>

fun spreadThrows :: "jsval \<Rightarrow> error option" where
  "spreadThrows (JArr xs) = None"
| "spreadThrows (JStr s) = None"
| "spreadThrows v = Some TypeError"

fun filterThrows :: "jsval \<Rightarrow> error option" where
  "filterThrows (JArr xs) = (if JNull \<in> set xs \<or> JUndefined \<in> set xs then Some TypeError else None)"
| "filterThrows v = Some TypeError"

text \<open>\<open>saveToHistory\<close> reads the clock twice: \<open>t1\<close> for the id, \<open>t2\<close> for the timestamp.\<close>

definition newHistoryItem ::
  "nat \<Rightarrow> nat \<Rightarrow> SceneData list \<Rightarrow> ScriptRow list \<Rightarrow> GenerationSettings \<Rightarrow> HistorySource
   \<Rightarrow> HistoryItem" where
  "newHistoryItem t1 t2 generatedScenes currentRows currentSettings src =
     \<lparr>item_id = js (digits t1), source = src, item_timestamp = t2,
      item_rows = currentRows, item_settings = currentSettings,
      item_scenes = generatedScenes\<rparr>"

definition persist :: "HistoryItem list \<Rightarrow> AppState \<Rightarrow> outcome" where
  "persist h st =
     (case setItem (Serialized h) (localStorage st) of
        Inl e \<Rightarrow> (st, Some e)
      | Inr store \<Rightarrow> (st\<lparr>localStorage := store\<rparr>, None))"

definition saveToHistory ::
  "nat \<Rightarrow> nat \<Rightarrow> SceneData list \<Rightarrow> ScriptRow list \<Rightarrow> GenerationSettings \<Rightarrow> HistorySource
   \<Rightarrow> AppState \<Rightarrow> outcome" where
  "saveToHistory t1 t2 generatedScenes currentRows currentSettings src st =
     (let newItem = newHistoryItem t1 t2 generatedScenes currentRows currentSettings src;
          updatedHistory = take 30 (newItem # history st)
      in persist updatedHistory (st\<lparr>history := updatedHistory\<rparr>))"

definition deleteHistoryItem :: "jsstring \<Rightarrow> AppState \<Rightarrow> outcome" where
  "deleteHistoryItem i st =
     (let updated = filter (\<lambda>item. item_id item \<noteq> i) (history st)
      in persist updated (st\<lparr>history := updated\<rparr>))"

text \<open>\<open>confirmed\<close> is the answer of \<open>window.confirm\<close>.\<close>

definition loadHistoryItem :: "bool \<Rightarrow> HistoryItem \<Rightarrow> AppState \<Rightarrow> AppState" where
  "loadHistoryItem confirmed item st =
     (if confirmed then
        st\<lparr>rows := item_rows item,
           settings := item_settings item,
           activeSettings := Some (item_settings item),
           scenes := item_scenes item,
           status := (if length (item_scenes item) > 0 then COMPLETE else IDLE),
           showHistory := False\<rparr>
      else st)"

definition failedToGenerate :: jsstring where
  "failedToGenerate = js ''Failed to generate prompts. Please check your API key and try again.''"

text \<open>
  \<open>handleGenerate\<close>: \<open>generate\<close> is the awaited \<open>generateFullScriptAnalysis\<close>; the
  \<open>catch\<close> also receives what \<open>saveToHistory\<close> throws.
\<close>

definition handleGenerate ::
  "nat \<Rightarrow> nat \<Rightarrow> (jsstring \<Rightarrow> GenerationSettings \<Rightarrow> error + SceneData list)
   \<Rightarrow> jsstring \<Rightarrow> GenerationSettings \<Rightarrow> AppState \<Rightarrow> AppState" where
  "handleGenerate t1 t2 generate scriptText genSettings st =
     (let st1 = st\<lparr>status := GENERATING, errorMsg := None, activeSettings := Some genSettings\<rparr>;
          caught = (\<lambda>e s. s\<lparr>console := e # console s, errorMsg := Some failedToGenerate,
                              status := ERROR\<rparr>)
      in case generate scriptText genSettings of
           Inl e \<Rightarrow> caught e st1
         | Inr newScenes \<Rightarrow>
             (case saveToHistory t1 t2 newScenes (rows st) genSettings Auto
                     (st1\<lparr>scenes := newScenes, status := COMPLETE\<rparr>) of
                (st2, None) \<Rightarrow> st2
              | (st2, Some e) \<Rightarrow> caught e st2))"

definition handleSaveScript :: "nat \<Rightarrow> nat \<Rightarrow> AppState \<Rightarrow> outcome" where
  "handleSaveScript t1 t2 st = saveToHistory t1 t2 [] (rows st) (settings st) Script st"

definition handleSavePrompt :: "nat \<Rightarrow> nat \<Rightarrow> AppState \<Rightarrow> outcome" where
  "handleSavePrompt t1 t2 st =
     (case activeSettings st of
        None \<Rightarrow> (st, None)
      | Some a \<Rightarrow> saveToHistory t1 t2 (scenes st) (rows st) a Prompt st)"

definition handleSaveAll :: "nat \<Rightarrow> nat \<Rightarrow> AppState \<Rightarrow> outcome" where
  "handleSaveAll t1 t2 st =
     (case activeSettings st of
        None \<Rightarrow> (st, None)
      | Some a \<Rightarrow> saveToHistory t1 t2 (scenes st) (rows st) a All st)"

text \<open>
  \<open>handleRegenerateScene\<close>: \<open>regenerate\<close> is the awaited \<open>regenerateScene\<close>. The scene
  is looked up in the list the handler closed over; the setters work on the store as it is.
\<close>

definition setRegenerating :: "jsstring \<Rightarrow> bool \<Rightarrow> SceneData list \<Rightarrow> SceneData list" where
  "setRegenerating tid b prev =
     map (\<lambda>s. if scene_id s = tid then s\<lparr>isRegenerating := Some b\<rparr> else s) prev"

definition mergeRegenerated :: "jsstring \<Rightarrow> SceneUpdate \<Rightarrow> SceneData list \<Rightarrow> SceneData list" where
  "mergeRegenerated tid u prev =
     map (\<lambda>s. if scene_id s = tid then (spreadUpdate s u)\<lparr>isRegenerating := Some False\<rparr> else s)
       prev"

definition handleRegenerateScene ::
  "(jsstring \<Rightarrow> GenerationSettings \<Rightarrow> int \<Rightarrow> error + SceneUpdate)
   \<Rightarrow> jsstring \<Rightarrow> int \<Rightarrow> AppState \<Rightarrow> AppState" where
  "handleRegenerateScene regenerate tid currentCount st =
     (case activeSettings st of
        None \<Rightarrow> st
      | Some a \<Rightarrow>
          (let st1 = st\<lparr>scenes := setRegenerating tid True (scenes st)\<rparr>
           in case find (\<lambda>s. scene_id s = tid) (scenes st) of
                None \<Rightarrow> st1
              | Some sceneToRegen \<Rightarrow>
                  (case regenerate (originalScript sceneToRegen) a currentCount of
                     Inr updatedData \<Rightarrow>
                       st1\<lparr>scenes := mergeRegenerated tid updatedData (scenes st1)\<rparr>
                   | Inl e \<Rightarrow>
                       st1\<lparr>console := e # console st1,
                           scenes := setRegenerating tid False (scenes st1)\<rparr>)))"

section \<open>Request builder (handleSubmit of InputSection)\<close>

text \<open>
  \<open>String.prototype.trim\<close> strips the code units of ECMAScript's WhiteSpace and
  LineTerminator productions from both ends.
\<close>

definition isWhiteSpace :: "jschar \<Rightarrow> bool" where
  "isWhiteSpace c =
     (c \<in> {0x0009, 0x000A, 0x000B, 0x000C, 0x000D, 0x0020, 0x00A0, 0x1680,
            0x2028, 0x2029, 0x202F, 0x205F, 0x3000, 0xFEFF}
      \<or> (0x2000 \<le> c \<and> c \<le> 0x200A))"

definition trim :: "jsstring \<Rightarrow> jsstring" where
  "trim s = rev (dropWhile isWhiteSpace (rev (dropWhile isWhiteSpace s)))"

definition lineFeed :: jsstring where
  "lineFeed = [0x000A]"

text \<open>\<open>Array.prototype.join\<close> on an array of strings.\<close>

fun join :: "jsstring \<Rightarrow> jsstring list \<Rightarrow> jsstring" where
  "join sep [] = []"
| "join sep [x] = x"
| "join sep (x # y # ys) = x @ sep @ join sep (y # ys)"

text \<open>
  The callback of \<open>map\<close>: \<open>r.timestamp.trim() ? `[${r.timestamp}] ` : ''\<close>, then the
  content. A string is truthy when it is not empty.
\<close>

definition renderRow :: "ScriptRow \<Rightarrow> jsstring" where
  "renderRow r =
     (let time = (if trim (row_timestamp r) \<noteq> [] then js ''['' @ row_timestamp r @ js ''] ''
                  else [])
      in time @ content r)"

definition scriptText :: "ScriptRow list \<Rightarrow> jsstring" where
  "scriptText rs =
     join lineFeed (map renderRow (filter (\<lambda>r. trim (content r) \<noteq> []) rs))"

text \<open>\<open>handleSubmit\<close> returns the arguments of its call of \<open>onGenerate\<close>, if it makes one.\<close>

definition handleSubmit ::
  "GenerationStatus \<Rightarrow> ScriptRow list \<Rightarrow> GenerationSettings
   \<Rightarrow> (jsstring \<times> GenerationSettings) option" where
  "handleSubmit st rs se =
     (if trim (scriptText rs) \<noteq> [] \<and> st \<noteq> GENERATING then Some (scriptText rs, se) else None)"

subsection \<open>The rendered text as the specification words it\<close>

text \<open>
  A string is blank when it has white space only. The text has one line per row with
  non-blank content, in the order of the rows; a line is the content, after the
  timestamp in brackets and a space when the timestamp is not blank.
\<close>

definition blank :: "jsstring \<Rightarrow> bool" where
  "blank s = list_all isWhiteSpace s"

definition specLine :: "ScriptRow \<Rightarrow> jsstring" where
  "specLine r =
     (if blank (row_timestamp r) then content r
      else js ''['' @ row_timestamp r @ js ''] '' @ content r)"

definition specLines :: "ScriptRow list \<Rightarrow> jsstring list" where
  "specLines rs = map specLine (filter (\<lambda>r. \<not> blank (content r)) rs)"

text \<open>The lines of a text: the pieces between its line feeds.\<close>

fun linesOf :: "jsstring \<Rightarrow> jsstring list" where
  "linesOf [] = [[]]"
| "linesOf (c # cs) =
     (if c = 0x000A then [] # linesOf cs
      else (case linesOf cs of [] \<Rightarrow> [[c]] | l # ls \<Rightarrow> (c # l) # ls))"

section \<open>Response reconciler (geminiService.ts)\<close>

fun truthy :: "jsval \<Rightarrow> bool" where
  "truthy JUndefined = False"
| "truthy JNull = False"
| "truthy (JBool b) = b"
| "truthy (JNum n) = (n \<noteq> 0)"
| "truthy (JStr s) = (s \<noteq> [])"
| "truthy (JArr xs) = True"
| "truthy (JObj kvs) = True"

fun isArray :: "jsval \<Rightarrow> bool" where
  "isArray (JArr xs) = True"
| "isArray v = False"

definition lookup :: "(string \<times> jsval) list \<Rightarrow> string \<Rightarrow> jsval" where
  "lookup kvs k = (case map_of kvs k of Some v \<Rightarrow> v | None \<Rightarrow> JUndefined)"

text \<open>
  The property read \<open>v.k\<close>, at the names this code reads (\<open>scenes\<close>,
  \<open>suggestedImageCount\<close>, \<open>prompts\<close>, \<open>length\<close>: no index, no method). Reading a
  property of \<open>null\<close> or \<open>undefined\<close> throws a TypeError.
\<close>

fun getProp :: "jsval \<Rightarrow> string \<Rightarrow> error + jsval" where
  "getProp JUndefined k = Inl TypeError"
| "getProp JNull k = Inl TypeError"
| "getProp (JObj kvs) k = Inr (lookup kvs k)"
| "getProp (JArr xs) k = Inr (if k = ''length'' then JNum (int (length xs)) else JUndefined)"
| "getProp (JStr s) k = Inr (if k = ''length'' then JNum (int (length s)) else JUndefined)"
| "getProp (JBool b) k = Inr JUndefined"
| "getProp (JNum n) k = Inr JUndefined"

text \<open>An assignment \<open>o[k] = v\<close> on a property list.\<close>

fun setProp :: "string \<Rightarrow> jsval \<Rightarrow> (string \<times> jsval) list \<Rightarrow> (string \<times> jsval) list" where
  "setProp k v [] = [(k, v)]"
| "setProp k v ((k', v') # kvs) =
     (if k' = k then (k, v) # kvs else (k', v') # setProp k v kvs)"

text \<open>
  The own enumerable properties that a spread \<open>...v\<close> copies: those of an object, the
  indices of an array or a string, none of any other value (\<open>null\<close> included).
\<close>

fun ownProps :: "jsval \<Rightarrow> (string \<times> jsval) list" where
  "ownProps (JObj kvs) = kvs"
| "ownProps (JArr xs) = zip (map digits [0 ..< length xs]) xs"
| "ownProps (JStr s) = zip (map digits [0 ..< length s]) (map (\<lambda>c. JStr [c]) s)"
| "ownProps v = []"

definition spread :: "jsval \<Rightarrow> (string \<times> jsval) list \<Rightarrow> (string \<times> jsval) list" where
  "spread v target =
     foldl (\<lambda>obj k. setProp k (lookup (ownProps v) k) obj) target (map fst (ownProps v))"

definition sentinel :: jsval where
  "sentinel =
     JObj [(''t2iEn'', JStr (js ''Error generating prompt'')),
           (''t2iZh'', JStr [0x751F, 0x6210, 0x63D0, 0x793A, 0x8BCD, 0x9519, 0x8BEF]),
           (''i2vEn'', JStr (js ''Error'')),
           (''i2vZh'', JStr [0x9519, 0x8BEF])]"

definition andThen :: "error + 'a \<Rightarrow> ('a \<Rightarrow> error + 'b) \<Rightarrow> error + 'b" where
  "andThen r f = (case r of Inl e \<Rightarrow> Inl e | Inr x \<Rightarrow> f x)"

text \<open>
  \<open>settings.defaultImageCount === 0 ? (scene.suggestedImageCount || 1) :
  settings.defaultImageCount\<close>
\<close>

definition finalCount :: "GenerationSettings \<Rightarrow> jsval \<Rightarrow> error + jsval" where
  "finalCount se scene =
     (if defaultImageCount se = 0
      then andThen (getProp scene ''suggestedImageCount'')
             (\<lambda>c. Inr (if truthy c then c else JNum 1))
      else Inr (JNum (defaultImageCount se)))"

text \<open>
  \<open>let prompts = scene.prompts || []; if (prompts.length === 0) prompts = [sentinel]\<close>
\<close>

definition finalPrompts :: "jsval \<Rightarrow> error + jsval" where
  "finalPrompts scene =
     andThen (getProp scene ''prompts'') (\<lambda>p.
       let prompts0 = (if truthy p then p else JArr [])
       in andThen (getProp prompts0 ''length'') (\<lambda>len.
            Inr (if len = JNum 0 then JArr [sentinel] else prompts0)))"

text \<open>
  The callback of \<open>parsed.scenes.map\<close>; \<open>now\<close> is the reading of \<open>Date.now()\<close>. The
  object literal sets \<open>id\<close>, \<open>imageCount\<close> and \<open>aiSuggestedCount\<close>, then spreads the
  reply's element over them, then sets \<open>prompts\<close>.
\<close>

definition sceneFromReply :: "GenerationSettings \<Rightarrow> nat \<Rightarrow> nat \<Rightarrow> jsval \<Rightarrow> error + jsval" where
  "sceneFromReply se now index scene =
     andThen (finalCount se scene) (\<lambda>count.
     andThen (finalPrompts scene) (\<lambda>ps.
     andThen (getProp scene ''suggestedImageCount'') (\<lambda>suggested.
       Inr (JObj (setProp ''prompts'' ps
              (spread scene
                 [(''id'', JStr (js (''scene-'' @ digits now @ ''-'' @ digits index))),
                  (''imageCount'', count),
                  (''aiSuggestedCount'', suggested)]))))))"

text \<open>\<open>Array.prototype.map\<close> with the index; a throwing callback ends it.\<close>

fun mapScenes :: "GenerationSettings \<Rightarrow> (nat \<Rightarrow> nat) \<Rightarrow> nat \<Rightarrow> jsval list \<Rightarrow> error + jsval list" where
  "mapScenes se clock index [] = Inr []"
| "mapScenes se clock index (x # xs) =
     andThen (sceneFromReply se (clock index) index x) (\<lambda>y.
     andThen (mapScenes se clock (Suc index) xs) (\<lambda>ys. Inr (y # ys)))"

text \<open>\<open>generateFullScriptAnalysis\<close> from the parsed reply on.\<close>

definition scenesOfParsed :: "GenerationSettings \<Rightarrow> (nat \<Rightarrow> nat) \<Rightarrow> jsval \<Rightarrow> error + jsval list" where
  "scenesOfParsed se clock parsed =
     andThen (getProp parsed ''scenes'') (\<lambda>sc.
       if \<not> truthy sc \<or> \<not> isArray sc then Inl InvalidResponseStructure
       else (case sc of JArr xs \<Rightarrow> mapScenes se clock 0 xs
                      | _ \<Rightarrow> Inl InvalidResponseStructure))"

text \<open>
  The whole function: \<open>response\<close> is the outcome of the awaited model call with the
  text of its reply (which may be missing), \<open>parse\<close> is \<open>JSON.parse\<close>.
\<close>

definition generateFullScriptAnalysis ::
  "(jsstring \<Rightarrow> error + jsval) \<Rightarrow> (nat \<Rightarrow> nat) \<Rightarrow> error + jsstring option
   \<Rightarrow> GenerationSettings \<Rightarrow> error + jsval list" where
  "generateFullScriptAnalysis parse clock response se =
     andThen response (\<lambda>text.
     andThen (parse (case text of None \<Rightarrow> js ''{}'' | Some t \<Rightarrow> if t \<noteq> [] then t else js ''{}''))
       (scenesOfParsed se clock))"

text \<open>
  A property of the scene that the callback produces, or the error the callback throws.
\<close>

definition producedField :: "GenerationSettings \<Rightarrow> nat \<Rightarrow> nat \<Rightarrow> jsval \<Rightarrow> string \<Rightarrow> error + jsval" where
  "producedField se now index scene k =
     andThen (sceneFromReply se now index scene) (\<lambda>obj. getProp obj k)"

section \<open>Sample data\<close>

definition promptA :: PromptSet where
  "promptA = \<lparr>t2iEn = js ''wide shot'', t2iZh = [0x8FDC, 0x666F],
              i2vEn = js ''slow pan'', i2vZh = [0x6162, 0x6447]\<rparr>"

definition promptB :: PromptSet where
  "promptB = \<lparr>t2iEn = js ''close-up'', t2iZh = [0x7279, 0x5199],
              i2vEn = js ''push in'', i2vZh = [0x63A8, 0x8FD1]\<rparr>"

definition sceneOne :: SceneData where
  "sceneOne = \<lparr>scene_id = js ''scene-1700000000000-0'',
               originalScript = js ''A hero walks into a bar.'',
               imageCount = 4, aiSuggestedCount = Some 2,
               reasoningEn = js ''Establish the room.'', reasoningZh = [0x5F00, 0x573A],
               prompts = [promptA, promptB], isRegenerating = None\<rparr>"

definition sceneTwo :: SceneData where
  "sceneTwo = \<lparr>scene_id = js ''scene-1700000000000-1'',
               originalScript = js ''He orders a drink.'',
               imageCount = 1, aiSuggestedCount = Some 1,
               reasoningEn = js ''Stay close.'', reasoningZh = [0x7279, 0x5199],
               prompts = [promptB], isRegenerating = None\<rparr>"

definition DEFAULT_SETTINGS :: GenerationSettings where
  "DEFAULT_SETTINGS = \<lparr>defaultImageCount = 0, artStyle = js ''Cinematic Realistic'',
                        aspectRatio = js ''16:9''\<rparr>"

text \<open>The state of \<open>App\<close> at its first render, over a given store.\<close>

definition initialState :: "Storage \<Rightarrow> AppState" where
  "initialState store =
     \<lparr>rows = [\<lparr>row_id = js ''1'', row_timestamp = js ''00:00'', content = [],
                duration = Some []\<rparr>],
      settings = DEFAULT_SETTINGS, scenes = [], status = IDLE, errorMsg = None,
      activeSettings = None, showHistory = False, history = [], localStorage = store,
      console = []\<rparr>"

definition emptyStore :: Storage where
  "emptyStore = \<lparr>stored = None, readFault = None, writeFault = None\<rparr>"

definition corruptStore :: Storage where
  "corruptStore = \<lparr>stored = Some Unparsable, readFault = None, writeFault = None\<rparr>"

definition nullStore :: Storage where
  "nullStore = \<lparr>stored = Some (OtherJson JNull), readFault = None, writeFault = None\<rparr>"

definition lockedStore :: Storage where
  "lockedStore = \<lparr>stored = None, readFault = Some SecurityError, writeFault = None\<rparr>"

definition fullStore :: Storage where
  "fullStore = \<lparr>stored = None, readFault = None, writeFault = Some QuotaExceededError\<rparr>"

definition thirtyItems :: "HistoryItem list" where
  "thirtyItems = map (\<lambda>k. newHistoryItem k k [] [] DEFAULT_SETTINGS Script) (rev [0 ..< 30])"

definition busyState :: AppState where
  "busyState = (initialState emptyStore)
     \<lparr>scenes := [sceneOne, sceneTwo], status := COMPLETE,
      activeSettings := Some DEFAULT_SETTINGS, history := thirtyItems\<rparr>"

definition failingCall :: "jsstring \<Rightarrow> GenerationSettings \<Rightarrow> int \<Rightarrow> error + SceneUpdate" where
  "failingCall script a n = Inl NetworkError"

definition sampleRows :: "ScriptRow list" where
  "sampleRows =
     [\<lparr>row_id = js ''1'', row_timestamp = js ''00:00'',
       content = js ''A hero walks into a bar.'', duration = Some (js ''5s'')\<rparr>,
      \<lparr>row_id = js ''2'', row_timestamp = js ''00:05'',
       content = [0x0020, 0x3000, 0x0009], duration = None\<rparr>,
      \<lparr>row_id = js ''3'', row_timestamp = js '' '',
       content = js ''He orders a drink.'', duration = None\<rparr>]"

definition multilineRows :: "ScriptRow list" where
  "multilineRows =
     [\<lparr>row_id = js ''1'', row_timestamp = [],
       content = js ''a'' @ lineFeed @ js ''b'', duration = None\<rparr>]"

definition forcedTwo :: GenerationSettings where
  "forcedTwo = \<lparr>defaultImageCount = 2, artStyle = js ''Minimalist'', aspectRatio = js ''16:9''\<rparr>"

definition promptValue :: jsval where
  "promptValue =
     JObj [(''t2iEn'', JStr (js ''wide shot'')), (''t2iZh'', JStr [0x8FDC, 0x666F]),
           (''i2vEn'', JStr (js ''slow pan'')), (''i2vZh'', JStr [0x6162, 0x6447])]"

definition goodReply :: jsval where
  "goodReply =
     JObj [(''originalScript'', JStr (js ''A hero walks into a bar.'')),
           (''suggestedImageCount'', JNum 3),
           (''reasoningEn'', JStr (js ''Establish the room.'')),
           (''reasoningZh'', JStr [0x5F00, 0x573A]),
           (''prompts'', JArr [promptValue, promptValue, promptValue])]"

definition overridingReply :: jsval where
  "overridingReply =
     JObj [(''originalScript'', JStr (js ''A hero walks into a bar.'')),
           (''suggestedImageCount'', JNum 3),
           (''imageCount'', JNum 7),
           (''reasoningEn'', JStr (js ''Establish the room.'')),
           (''reasoningZh'', JStr [0x5F00, 0x573A]),
           (''prompts'', JArr [promptValue, promptValue, promptValue])]"

definition bareReply :: jsval where
  "bareReply =
     JObj [(''originalScript'', JStr (js ''He orders a drink.'')),
           (''reasoningEn'', JStr (js ''Stay close.'')),
           (''reasoningZh'', JStr [0x7279, 0x5199]),
           (''prompts'', JArr [])]"

definition objectPromptsReply :: jsval where
  "objectPromptsReply =
     JObj [(''originalScript'', JStr (js ''He orders a drink.'')),
           (''suggestedImageCount'', JNum 1),
           (''reasoningEn'', JStr (js ''Stay close.'')),
           (''reasoningZh'', JStr [0x7279, 0x5199]),
           (''prompts'', JObj [])]"

definition fixedClock :: "nat \<Rightarrow> nat" where
  "fixedClock index = 1700000000000"

section \<open>Properties\<close>

lemma at_index_in_range:
  "i < length xs \<Longrightarrow> at_index xs (int i) = Some (xs ! i)"
  by (simp add: at_index_def)

lemma at_index_beyond:
  "length xs \<le> i \<Longrightarrow> at_index xs (int i) = None"
  by (simp add: at_index_def)

lemma at_index_last:
  "xs \<noteq> [] \<Longrightarrow> at_index xs (int (length xs) - 1) = Some (last xs)"
proof -
  assume ne: "xs \<noteq> []"
  then have pos: "0 < length xs" by simp
  then have n: "nat (int (length xs) - 1) = length xs - 1" by simp
  from pos have "0 \<le> int (length xs) - 1 \<and> int (length xs) - 1 < int (length xs)"
    by simp
  then have "at_index xs (int (length xs) - 1) = Some (xs ! (length xs - 1))"
    by (simp add: at_index_def n)
  with ne show ?thesis by (simp add: last_conv_nth)
qed

lemma slotPrompt_nonempty:
  assumes "ps \<noteq> []"
  shows "slotPrompt ps i = Some (if i < length ps then ps ! i else last ps)"
proof (cases "i < length ps")
  case True
  then show ?thesis
    by (simp add: slotPrompt_def or_else_def at_index_in_range)
next
  case False
  then have "length ps \<le> i" by simp
  with assms False show ?thesis
    by (simp add: slotPrompt_def or_else_def at_index_beyond at_index_last)
qed

lemma sceneSlots_nth:
  "int i < imageCount s \<Longrightarrow>
   i < length (sceneSlots s) \<and> sceneSlots s ! i = slotPrompt (prompts s) i"
  by (simp add: sceneSlots_def)

text \<open>
  C1. For a scene with a non-empty prompts list and a slot \<open>i\<close> below its image count,
  the fallback selection is defined: it is \<open>prompts[i]\<close> when \<open>i\<close> is below the length
  of the list and the last element otherwise; it is what the loop over the slots selects
  at \<open>i\<close>, and reading a field of it does not throw.
\<close>

theorem slot_fallback_defined:
  assumes "prompts s \<noteq> []" and "int i < imageCount s"
  shows "slotPrompt (prompts s) i
           = Some (if i < length (prompts s) then prompts s ! i else last (prompts s))
         \<and> i < length (sceneSlots s)
         \<and> sceneSlots s ! i
           = Some (if i < length (prompts s) then prompts s ! i else last (prompts s))
         \<and> (\<forall>f. readField f (slotPrompt (prompts s) i)
              = Inr (f (if i < length (prompts s) then prompts s ! i else last (prompts s))))"
  using sceneSlots_nth [OF assms(2)] slotPrompt_nonempty [OF assms(1), of i]
  by (simp add: readField_def)

theorem slot_fallback_defined_witness:
  "prompts sceneOne \<noteq> [] \<and> int 3 < imageCount sceneOne
   \<and> slotPrompt (prompts sceneOne) 3 = Some promptB
   \<and> sceneSlots sceneOne ! 3 = Some promptB
   \<and> readField t2iEn (slotPrompt (prompts sceneOne) 3) = Inr (js ''close-up'')"
proof -
  have a: "prompts sceneOne \<noteq> []" by (simp add: sceneOne_def)
  have b: "int 3 < imageCount sceneOne" by (simp add: sceneOne_def)
  have c: "\<not> 3 < length (prompts sceneOne)" by (simp add: sceneOne_def)
  have d: "last (prompts sceneOne) = promptB" by (simp add: sceneOne_def)
  have e: "t2iEn promptB = js ''close-up''" by (simp add: promptB_def)
  note t = slot_fallback_defined [OF a b]
  from t have s1: "slotPrompt (prompts sceneOne) 3 = Some promptB"
    by (simp add: c d)
  from t have s2: "sceneSlots sceneOne ! 3 = Some promptB"
    by (simp add: c d)
  from t have "readField t2iEn (slotPrompt (prompts sceneOne) 3)
      = Inr (t2iEn (if 3 < length (prompts sceneOne) then prompts sceneOne ! 3
                    else last (prompts sceneOne)))"
    by blast
  then have s3: "readField t2iEn (slotPrompt (prompts sceneOne) 3) = Inr (js ''close-up'')"
    by (simp only: c d e if_False)
  from a b s1 s2 s3 show ?thesis by blast
qed

lemma sceneSlots_all_defined:
  assumes "prompts s \<noteq> []"
  shows "None \<notin> set (sceneSlots s)"
proof
  assume "None \<in> set (sceneSlots s)"
  then obtain i where i: "i < nat (imageCount s)" and n: "slotPrompt (prompts s) i = None"
    by (auto simp: sceneSlots_def)
  from slotPrompt_nonempty [OF assms, of i] n show False by simp
qed

subsection \<open>Manual count edit\<close>

lemma handleUpdateImageCount_nth:
  "k < length prev \<Longrightarrow>
   handleUpdateImageCount tid n prev ! k
     = (if scene_id (prev ! k) = tid then (prev ! k)\<lparr>imageCount := n\<rparr> else prev ! k)"
  by (simp add: handleUpdateImageCount_def)

lemma handleUpdateImageCount_absent:
  "\<forall>s \<in> set prev. scene_id s \<noteq> tid \<Longrightarrow> handleUpdateImageCount tid n prev = prev"
  by (induction prev) (simp_all add: handleUpdateImageCount_def)

text \<open>
  C10. The manual image-count update keeps the length and order of the list; a scene with
  the target id gets the given count and keeps every other field; a scene with another
  id is unchanged; and when no scene has the target id the list is unchanged.
\<close>

theorem update_image_count_frame:
  "length (handleUpdateImageCount tid n prev) = length prev
   \<and> (\<forall>k < length prev.
        scene_id (prev ! k) = tid \<longrightarrow>
          handleUpdateImageCount tid n prev ! k = (prev ! k)\<lparr>imageCount := n\<rparr>
          \<and> imageCount (handleUpdateImageCount tid n prev ! k) = n
          \<and> scene_id (handleUpdateImageCount tid n prev ! k) = scene_id (prev ! k)
          \<and> originalScript (handleUpdateImageCount tid n prev ! k) = originalScript (prev ! k)
          \<and> aiSuggestedCount (handleUpdateImageCount tid n prev ! k) = aiSuggestedCount (prev ! k)
          \<and> reasoningEn (handleUpdateImageCount tid n prev ! k) = reasoningEn (prev ! k)
          \<and> reasoningZh (handleUpdateImageCount tid n prev ! k) = reasoningZh (prev ! k)
          \<and> prompts (handleUpdateImageCount tid n prev ! k) = prompts (prev ! k)
          \<and> isRegenerating (handleUpdateImageCount tid n prev ! k) = isRegenerating (prev ! k))
   \<and> (\<forall>k < length prev.
        scene_id (prev ! k) \<noteq> tid \<longrightarrow> handleUpdateImageCount tid n prev ! k = prev ! k)
   \<and> ((\<forall>s \<in> set prev. scene_id s \<noteq> tid) \<longrightarrow> handleUpdateImageCount tid n prev = prev)"
proof (intro conjI allI impI)
  show "length (handleUpdateImageCount tid n prev) = length prev"
    by (simp add: handleUpdateImageCount_def)
next
  assume "\<forall>s \<in> set prev. scene_id s \<noteq> tid"
  then show "handleUpdateImageCount tid n prev = prev"
    by (rule handleUpdateImageCount_absent)
qed (simp_all add: handleUpdateImageCount_nth)

theorem update_image_count_frame_witness:
  "handleUpdateImageCount (scene_id sceneTwo) 8 [sceneOne, sceneTwo]
     = [sceneOne, sceneTwo\<lparr>imageCount := 8\<rparr>]
   \<and> handleUpdateImageCount (js ''scene-0-9'') 8 [sceneOne, sceneTwo] = [sceneOne, sceneTwo]"
proof -
  have ids: "scene_id sceneOne \<noteq> scene_id sceneTwo"
    by (simp add: sceneOne_def sceneTwo_def js_def)
  have other: "\<forall>s \<in> set [sceneOne, sceneTwo]. scene_id s \<noteq> js ''scene-0-9''"
    by (simp add: sceneOne_def sceneTwo_def js_def)
  note t = update_image_count_frame [of "scene_id sceneTwo" 8 "[sceneOne, sceneTwo]"]
  from t have len: "length (handleUpdateImageCount (scene_id sceneTwo) 8 [sceneOne, sceneTwo]) = 2"
    by simp
  from t ids have k0: "handleUpdateImageCount (scene_id sceneTwo) 8 [sceneOne, sceneTwo] ! 0 = sceneOne"
    by force
  from t have k1: "handleUpdateImageCount (scene_id sceneTwo) 8 [sceneOne, sceneTwo] ! 1
      = sceneTwo\<lparr>imageCount := 8\<rparr>"
    by force
  have first: "handleUpdateImageCount (scene_id sceneTwo) 8 [sceneOne, sceneTwo]
     = [sceneOne, sceneTwo\<lparr>imageCount := 8\<rparr>]"
  proof (rule nth_equalityI)
    show "length (handleUpdateImageCount (scene_id sceneTwo) 8 [sceneOne, sceneTwo])
        = length [sceneOne, sceneTwo\<lparr>imageCount := 8\<rparr>]"
      using len by simp
  next
    fix k assume "k < length (handleUpdateImageCount (scene_id sceneTwo) 8 [sceneOne, sceneTwo])"
    then have "k = 0 \<or> k = 1" using len by auto
    then show "handleUpdateImageCount (scene_id sceneTwo) 8 [sceneOne, sceneTwo] ! k
        = [sceneOne, sceneTwo\<lparr>imageCount := 8\<rparr>] ! k"
      using k0 k1 by auto
  qed
  from update_image_count_frame [of "js ''scene-0-9''" 8 "[sceneOne, sceneTwo]"] other
  have second: "handleUpdateImageCount (js ''scene-0-9'') 8 [sceneOne, sceneTwo] = [sceneOne, sceneTwo]"
    by blast
  from first second show ?thesis by simp
qed

subsection \<open>History store\<close>

lemma persist_history: "history (fst (persist h st)) = history st"
  by (simp add: persist_def split: sum.splits)

lemma persist_thrown: "snd (persist h st) = writeFault (localStorage st)"
  by (simp add: persist_def setItem_def split: option.splits)

lemma saveToHistory_history:
  "history (fst (saveToHistory t1 t2 sc rw se src st))
     = take 30 (newHistoryItem t1 t2 sc rw se src # history st)"
  by (simp add: saveToHistory_def Let_def persist_history)

lemma take_30_of_full:
  assumes "length h = 30"
  shows "take 30 (x # h) = x # butlast h"
proof -
  have "butlast h = take 29 h" using assms by (simp add: butlast_conv_take)
  then show ?thesis by simp
qed

text \<open>
  C6. Appending a snapshot puts the new item first and keeps at most 30 entries; on a log
  of 30 items the result has exactly 30 items: the new one, then the old ones in their
  order without the last (oldest) one.
\<close>

theorem history_append_truncates:
  "history (fst (saveToHistory t1 t2 sc rw se src st))
     = take 30 (newHistoryItem t1 t2 sc rw se src # history st)
   \<and> hd (history (fst (saveToHistory t1 t2 sc rw se src st))) = newHistoryItem t1 t2 sc rw se src
   \<and> length (history (fst (saveToHistory t1 t2 sc rw se src st))) \<le> 30
   \<and> (length (history st) < 30 \<longrightarrow>
        history (fst (saveToHistory t1 t2 sc rw se src st))
          = newHistoryItem t1 t2 sc rw se src # history st)
   \<and> (length (history st) = 30 \<longrightarrow>
        history (fst (saveToHistory t1 t2 sc rw se src st))
          = newHistoryItem t1 t2 sc rw se src # butlast (history st)
        \<and> length (history (fst (saveToHistory t1 t2 sc rw se src st))) = 30)"
proof (intro conjI impI)
  show "history (fst (saveToHistory t1 t2 sc rw se src st))
      = take 30 (newHistoryItem t1 t2 sc rw se src # history st)"
    by (rule saveToHistory_history)
  show "hd (history (fst (saveToHistory t1 t2 sc rw se src st))) = newHistoryItem t1 t2 sc rw se src"
    by (simp add: saveToHistory_history)
  show "length (history (fst (saveToHistory t1 t2 sc rw se src st))) \<le> 30"
    by (simp add: saveToHistory_history)
next
  assume "length (history st) < 30"
  then show "history (fst (saveToHistory t1 t2 sc rw se src st))
      = newHistoryItem t1 t2 sc rw se src # history st"
    by (simp add: saveToHistory_history)
next
  assume full: "length (history st) = 30"
  then show "history (fst (saveToHistory t1 t2 sc rw se src st))
      = newHistoryItem t1 t2 sc rw se src # butlast (history st)"
    by (simp only: saveToHistory_history take_30_of_full)
  from full show "length (history (fst (saveToHistory t1 t2 sc rw se src st))) = 30"
    by (simp add: saveToHistory_history)
qed

theorem history_append_truncates_witness:
  "length (history busyState) = 30
   \<and> history (fst (saveToHistory 31 32 [sceneOne] [] DEFAULT_SETTINGS All busyState))
       = newHistoryItem 31 32 [sceneOne] [] DEFAULT_SETTINGS All # butlast (history busyState)
   \<and> length (history (fst (saveToHistory 31 32 [sceneOne] [] DEFAULT_SETTINGS All busyState))) = 30"
proof -
  have full: "length (history busyState) = 30"
    by (simp add: busyState_def thirtyItems_def)
  from history_append_truncates [of 31 32 "[sceneOne]" "[]" DEFAULT_SETTINGS All busyState] full
  show ?thesis by blast
qed

text \<open>
  C7. Round trip: the item that an append builds from scenes, rows and settings stands
  first in the log, and restoring it (the user confirming) makes exactly those rows,
  settings and scenes current, whatever the state was in between.
\<close>

theorem history_round_trip:
  "hd (history (fst (saveToHistory t1 t2 sc rw se src st))) = newHistoryItem t1 t2 sc rw se src
   \<and> rows (loadHistoryItem True (hd (history (fst (saveToHistory t1 t2 sc rw se src st)))) st') = rw
   \<and> settings (loadHistoryItem True (hd (history (fst (saveToHistory t1 t2 sc rw se src st)))) st') = se
   \<and> activeSettings (loadHistoryItem True (hd (history (fst (saveToHistory t1 t2 sc rw se src st)))) st')
       = Some se
   \<and> scenes (loadHistoryItem True (hd (history (fst (saveToHistory t1 t2 sc rw se src st)))) st') = sc"
  by (simp add: saveToHistory_history loadHistoryItem_def newHistoryItem_def)

subsection \<open>Regeneration failure\<close>

lemma setRegenerating_twice:
  "setRegenerating tid b (setRegenerating tid c prev) = setRegenerating tid b prev"
  by (induction prev) (simp_all add: setRegenerating_def)

lemma setRegenerating_nth:
  "k < length prev \<Longrightarrow>
   setRegenerating tid b prev ! k
     = (if scene_id (prev ! k) = tid then (prev ! k)\<lparr>isRegenerating := Some b\<rparr> else prev ! k)"
  by (simp add: setRegenerating_def)

lemma handleRegenerateScene_failed:
  assumes "activeSettings st = Some a"
    and "find (\<lambda>s. scene_id s = tid) (scenes st) = Some target"
    and "regenerate (originalScript target) a n = Inl e"
  shows "handleRegenerateScene regenerate tid n st
           = st\<lparr>console := e # console st, scenes := setRegenerating tid False (scenes st)\<rparr>"
  using assms by (simp add: handleRegenerateScene_def Let_def setRegenerating_twice)

text \<open>
  C8. When the regeneration call of a scene fails, the store afterwards is the store
  before the call with the in-progress flag of the target cleared: the target keeps its
  id, script, counts, reasoning and prompts, every other scene is unchanged, and the
  global status and error message are untouched (the failure is only logged).
\<close>

theorem regeneration_failure_keeps_store:
  assumes "activeSettings st = Some a"
    and "find (\<lambda>s. scene_id s = tid) (scenes st) = Some target"
    and "regenerate (originalScript target) a n = Inl e"
  shows "length (scenes (handleRegenerateScene regenerate tid n st)) = length (scenes st)
   \<and> (\<forall>k < length (scenes st).
        scene_id (scenes st ! k) = tid \<longrightarrow>
          scenes (handleRegenerateScene regenerate tid n st) ! k
            = (scenes st ! k)\<lparr>isRegenerating := Some False\<rparr>
          \<and> isRegenerating (scenes (handleRegenerateScene regenerate tid n st) ! k) = Some False
          \<and> scene_id (scenes (handleRegenerateScene regenerate tid n st) ! k) = scene_id (scenes st ! k)
          \<and> originalScript (scenes (handleRegenerateScene regenerate tid n st) ! k)
              = originalScript (scenes st ! k)
          \<and> imageCount (scenes (handleRegenerateScene regenerate tid n st) ! k)
              = imageCount (scenes st ! k)
          \<and> aiSuggestedCount (scenes (handleRegenerateScene regenerate tid n st) ! k)
              = aiSuggestedCount (scenes st ! k)
          \<and> reasoningEn (scenes (handleRegenerateScene regenerate tid n st) ! k)
              = reasoningEn (scenes st ! k)
          \<and> reasoningZh (scenes (handleRegenerateScene regenerate tid n st) ! k)
              = reasoningZh (scenes st ! k)
          \<and> prompts (scenes (handleRegenerateScene regenerate tid n st) ! k)
              = prompts (scenes st ! k))
   \<and> (\<forall>k < length (scenes st).
        scene_id (scenes st ! k) \<noteq> tid \<longrightarrow>
          scenes (handleRegenerateScene regenerate tid n st) ! k = scenes st ! k)
   \<and> status (handleRegenerateScene regenerate tid n st) = status st
   \<and> errorMsg (handleRegenerateScene regenerate tid n st) = errorMsg st
   \<and> console (handleRegenerateScene regenerate tid n st) = e # console st"
proof -
  note eq = handleRegenerateScene_failed
    [where st = st and a = a and tid = tid and target = target and regenerate = regenerate
       and n = n and e = e, OF assms]
  show ?thesis
    by (simp add: eq setRegenerating_nth) (simp add: setRegenerating_def)
qed

theorem regeneration_failure_keeps_store_witness:
  "activeSettings busyState = Some DEFAULT_SETTINGS
   \<and> find (\<lambda>s. scene_id s = scene_id sceneTwo) (scenes busyState) = Some sceneTwo
   \<and> failingCall (originalScript sceneTwo) DEFAULT_SETTINGS 1 = Inl NetworkError
   \<and> scenes (handleRegenerateScene failingCall (scene_id sceneTwo) 1 busyState) ! 0 = sceneOne
   \<and> scenes (handleRegenerateScene failingCall (scene_id sceneTwo) 1 busyState) ! 1
       = sceneTwo\<lparr>isRegenerating := Some False\<rparr>
   \<and> status (handleRegenerateScene failingCall (scene_id sceneTwo) 1 busyState) = COMPLETE"
proof -
  have ids: "scene_id sceneOne \<noteq> scene_id sceneTwo"
    by (simp add: sceneOne_def sceneTwo_def js_def)
  have a: "activeSettings busyState = Some DEFAULT_SETTINGS"
    by (simp add: busyState_def)
  have sc: "scenes busyState = [sceneOne, sceneTwo]"
    by (simp add: busyState_def)
  have f: "find (\<lambda>s. scene_id s = scene_id sceneTwo) (scenes busyState) = Some sceneTwo"
    using ids by (simp add: sc)
  have c: "failingCall (originalScript sceneTwo) DEFAULT_SETTINGS 1 = Inl NetworkError"
    by (simp add: failingCall_def)
  have st: "status busyState = COMPLETE"
    by (simp add: busyState_def)
  note t = regeneration_failure_keeps_store
    [where st = busyState and a = DEFAULT_SETTINGS and tid = "scene_id sceneTwo"
       and target = sceneTwo and regenerate = failingCall and n = 1 and e = NetworkError,
     OF a f c]
  from t ids have k0: "scenes (handleRegenerateScene failingCall (scene_id sceneTwo) 1 busyState) ! 0
      = sceneOne"
    by (simp add: sc)
  from t have k1: "scenes (handleRegenerateScene failingCall (scene_id sceneTwo) 1 busyState) ! 1
      = sceneTwo\<lparr>isRegenerating := Some False\<rparr>"
    by (simp add: sc)
  from t st have s: "status (handleRegenerateScene failingCall (scene_id sceneTwo) 1 busyState) = COMPLETE"
    by simp
  from a f c k0 k1 s show ?thesis by simp
qed

subsection \<open>Persistence failures\<close>

text \<open>
  C9 as stated fails: nothing catches what the store throws on a write. With the quota
  exhausted, both saving the script and deleting an item let the exception escape.
\<close>

theorem persistence_write_failure_escapes:
  "snd (handleSaveScript 1 2 (initialState fullStore)) = Some QuotaExceededError
   \<and> snd (deleteHistoryItem (js ''1'') (initialState fullStore)) = Some QuotaExceededError"
  by (simp add: handleSaveScript_def saveToHistory_def deleteHistoryItem_def persist_def
      setItem_def initialState_def fullStore_def Let_def)

text \<open>
  C9, amended. A stored payload that \<open>JSON.parse\<close> rejects is caught at startup: the
  mount effect throws nothing, logs the error and leaves the history as it was (empty:
  no history available); with no stored item or an empty one it does nothing, and a
  stored log is installed. Failures of the store's own operations are not caught: the
  mount effect throws what the read throws, and in a state whose history is a log
  (every \<open>AppState\<close>) append and delete throw exactly what the write throws, nothing
  when the write succeeds. Nothing is said of a payload that parses to a value that is
  no log.
\<close>

theorem persistence_failures_contained:
  "(readFault (localStorage st) = None \<and> stored (localStorage st) = Some Unparsable \<longrightarrow>
      loadHistoryOnMount st = WithLog (st\<lparr>console := SyntaxError # console st\<rparr>) None
      \<and> history (st\<lparr>console := SyntaxError # console st\<rparr>) = history st)
   \<and> (readFault (localStorage st) = None
        \<and> (stored (localStorage st) = None \<or> stored (localStorage st) = Some EmptyText) \<longrightarrow>
      loadHistoryOnMount st = WithLog st None)
   \<and> (\<forall>h. readFault (localStorage st) = None \<and> stored (localStorage st) = Some (Serialized h) \<longrightarrow>
      loadHistoryOnMount st = WithLog (st\<lparr>history := h\<rparr>) None)
   \<and> (\<forall>e. readFault (localStorage st) = Some e \<longrightarrow> loadHistoryOnMount st = WithLog st (Some e))
   \<and> snd (saveToHistory t1 t2 sc rw se src st) = writeFault (localStorage st)
   \<and> snd (deleteHistoryItem i st) = writeFault (localStorage st)"
proof (intro conjI impI allI)
  assume "readFault (localStorage st) = None \<and> stored (localStorage st) = Some Unparsable"
  then show "loadHistoryOnMount st = WithLog (st\<lparr>console := SyntaxError # console st\<rparr>) None"
    by (simp add: loadHistoryOnMount_def getItem_def)
  show "history (st\<lparr>console := SyntaxError # console st\<rparr>) = history st"
    by simp
next
  assume "readFault (localStorage st) = None
        \<and> (stored (localStorage st) = None \<or> stored (localStorage st) = Some EmptyText)"
  then show "loadHistoryOnMount st = WithLog st None"
    by (auto simp: loadHistoryOnMount_def getItem_def)
next
  fix h
  assume "readFault (localStorage st) = None \<and> stored (localStorage st) = Some (Serialized h)"
  then show "loadHistoryOnMount st = WithLog (st\<lparr>history := h\<rparr>) None"
    by (simp add: loadHistoryOnMount_def getItem_def)
next
  fix e
  assume "readFault (localStorage st) = Some e"
  then show "loadHistoryOnMount st = WithLog st (Some e)"
    by (simp add: loadHistoryOnMount_def getItem_def)
next
  show "snd (saveToHistory t1 t2 sc rw se src st) = writeFault (localStorage st)"
    by (simp add: saveToHistory_def Let_def persist_thrown)
  show "snd (deleteHistoryItem i st) = writeFault (localStorage st)"
    by (simp add: deleteHistoryItem_def Let_def persist_thrown)
qed

theorem persistence_failures_contained_witness:
  "loadHistoryOnMount (initialState corruptStore)
     = WithLog ((initialState corruptStore)\<lparr>console := [SyntaxError]\<rparr>) None
   \<and> history ((initialState corruptStore)\<lparr>console := [SyntaxError]\<rparr>) = []
   \<and> loadHistoryOnMount (initialState emptyStore) = WithLog (initialState emptyStore) None
   \<and> loadHistoryOnMount (initialState lockedStore)
       = WithLog (initialState lockedStore) (Some SecurityError)
   \<and> snd (saveToHistory 1 2 [] [] DEFAULT_SETTINGS Script (initialState corruptStore)) = None
   \<and> snd (deleteHistoryItem (js ''1'') (initialState corruptStore)) = None
   \<and> snd (saveToHistory 1 2 [] [] DEFAULT_SETTINGS Script (initialState fullStore))
       = Some QuotaExceededError"
proof -
  have r: "readFault (localStorage (initialState corruptStore)) = None"
    and p: "stored (localStorage (initialState corruptStore)) = Some Unparsable"
    and w: "writeFault (localStorage (initialState corruptStore)) = None"
    and h: "history (initialState corruptStore) = []"
    and c: "console (initialState corruptStore) = []"
    by (simp_all add: initialState_def corruptStore_def)
  have r': "readFault (localStorage (initialState emptyStore)) = None"
    and p': "stored (localStorage (initialState emptyStore)) = None"
    by (simp_all add: initialState_def emptyStore_def)
  have l: "readFault (localStorage (initialState lockedStore)) = Some SecurityError"
    by (simp add: initialState_def lockedStore_def)
  have f: "writeFault (localStorage (initialState fullStore)) = Some QuotaExceededError"
    by (simp add: initialState_def fullStore_def)
  note t = persistence_failures_contained
    [of "initialState corruptStore" 1 2 "[]" "[]" DEFAULT_SETTINGS Script "js ''1''"]
  from t r p have 1: "loadHistoryOnMount (initialState corruptStore)
     = WithLog ((initialState corruptStore)\<lparr>console := [SyntaxError]\<rparr>) None"
    by (simp add: c)
  have 2: "history ((initialState corruptStore)\<lparr>console := [SyntaxError]\<rparr>) = []"
    by (simp add: h)
  from persistence_failures_contained
    [of "initialState emptyStore" 1 2 "[]" "[]" DEFAULT_SETTINGS Script "js ''1''"] r' p'
  have 3: "loadHistoryOnMount (initialState emptyStore) = WithLog (initialState emptyStore) None"
    by simp
  from persistence_failures_contained
    [of "initialState lockedStore" 1 2 "[]" "[]" DEFAULT_SETTINGS Script "js ''1''"] l
  have 4: "loadHistoryOnMount (initialState lockedStore)
       = WithLog (initialState lockedStore) (Some SecurityError)"
    by simp
  from t w have 5: "snd (saveToHistory 1 2 [] [] DEFAULT_SETTINGS Script (initialState corruptStore)) = None"
    and 6: "snd (deleteHistoryItem (js ''1'') (initialState corruptStore)) = None"
    by simp_all
  from persistence_failures_contained
    [of "initialState fullStore" 1 2 "[]" "[]" DEFAULT_SETTINGS Script "js ''1''"] f
  have 7: "snd (saveToHistory 1 2 [] [] DEFAULT_SETTINGS Script (initialState fullStore))
       = Some QuotaExceededError"
    by simp
  from 1 2 3 4 5 6 7 show ?thesis by blast
qed

text \<open>
  A stored text that parses to a value that is no log is not caught: at the text
  \<open>null\<close> the mount effect throws nothing and leaves \<open>null\<close> in the history state,
  where the next append or delete throws a TypeError although no write fails.
\<close>

lemma non_log_payload_not_contained:
  "loadHistoryOnMount (initialState nullStore) = WithoutLog JNull (initialState nullStore)
   \<and> spreadThrows JNull = Some TypeError
   \<and> filterThrows JNull = Some TypeError
   \<and> writeFault (localStorage (initialState nullStore)) = None"
  by (simp add: loadHistoryOnMount_def getItem_def initialState_def nullStore_def)

lemma loadHistoryOnMount_non_log:
  "readFault (localStorage st) = None \<Longrightarrow> stored (localStorage st) = Some (OtherJson v) \<Longrightarrow>
   loadHistoryOnMount st = WithoutLog v st"
  by (simp add: loadHistoryOnMount_def getItem_def)

text \<open>
  A write failure during the automatic save after a successful generation reaches the
  \<open>catch\<close> of \<open>handleGenerate\<close> and is shown as a failed generation.
\<close>

lemma handleGenerate_write_failure:
  assumes "generate txt g = Inr newScenes"
    and "writeFault (localStorage st) = Some e"
  shows "status (handleGenerate t1 t2 generate txt g st) = ERROR
         \<and> errorMsg (handleGenerate t1 t2 generate txt g st) = Some failedToGenerate
         \<and> scenes (handleGenerate t1 t2 generate txt g st) = newScenes"
  using assms
  by (simp add: handleGenerate_def saveToHistory_def persist_def setItem_def Let_def)

subsection \<open>Request builder\<close>

lemma trim_empty_iff: "trim s = [] \<longleftrightarrow> blank s"
proof -
  have "trim s = [] \<longleftrightarrow> (\<forall>c \<in> set (dropWhile isWhiteSpace s). isWhiteSpace c)"
    by (simp add: trim_def dropWhile_eq_Nil_conv)
  also have "\<dots> \<longleftrightarrow> dropWhile isWhiteSpace s = []"
  proof
    assume a: "\<forall>c \<in> set (dropWhile isWhiteSpace s). isWhiteSpace c"
    show "dropWhile isWhiteSpace s = []"
    proof (rule ccontr)
      assume ne: "dropWhile isWhiteSpace s \<noteq> []"
      then have "\<not> isWhiteSpace (hd (dropWhile isWhiteSpace s))"
        by (rule hd_dropWhile)
      moreover from ne have "hd (dropWhile isWhiteSpace s) \<in> set (dropWhile isWhiteSpace s)"
        by simp
      ultimately show False using a by blast
    qed
  next
    assume "dropWhile isWhiteSpace s = []"
    then show "\<forall>c \<in> set (dropWhile isWhiteSpace s). isWhiteSpace c"
      by (simp del: dropWhile_eq_Nil_conv)
  qed
  also have "\<dots> \<longleftrightarrow> blank s"
    by (simp add: blank_def dropWhile_eq_Nil_conv list_all_iff)
  finally show ?thesis .
qed

lemma renderRow_specLine: "renderRow = specLine"
  by (rule ext) (simp add: renderRow_def specLine_def trim_empty_iff Let_def)

lemma scriptText_specLines: "scriptText rs = join lineFeed (specLines rs)"
  by (simp add: scriptText_def specLines_def trim_empty_iff renderRow_specLine)

lemma linesOf_single: "0x000A \<notin> set x \<Longrightarrow> linesOf x = [x]"
  by (induction x) auto

lemma linesOf_append:
  "0x000A \<notin> set x \<Longrightarrow> linesOf (x @ 0x000A # rest) = x # linesOf rest"
  by (induction x) auto

lemma linesOf_join:
  "xs \<noteq> [] \<Longrightarrow> \<forall>x \<in> set xs. 0x000A \<notin> set x \<Longrightarrow> linesOf (join lineFeed xs) = xs"
proof (induction lineFeed xs rule: join.induct)
  case 1
  then show ?case by simp
next
  case (2 x)
  then show ?case by (simp add: linesOf_single)
next
  case (3 x y ys)
  then show ?case by (simp add: lineFeed_def linesOf_append)
qed

lemma specLine_no_feed:
  "0x000A \<notin> set (row_timestamp r) \<Longrightarrow> 0x000A \<notin> set (content r) \<Longrightarrow> 0x000A \<notin> set (specLine r)"
  by (simp add: specLine_def js_def)

lemma blank_simps: "blank [] = True" "blank (c # cs) = (isWhiteSpace c \<and> blank cs)"
  by (simp_all add: blank_def)

lemma linesOf_not_empty: "linesOf x \<noteq> []"
  by (induction x) (auto split: list.splits)

lemma linesOf_feed: "linesOf (x @ 0x000A # rest) = linesOf x @ linesOf rest"
proof (induction x)
  case Nil
  then show ?case by simp
next
  case (Cons c cs)
  obtain l ls where "linesOf cs = l # ls"
    using linesOf_not_empty [of cs] by (cases "linesOf cs") auto
  with Cons show ?case by simp
qed

lemma linesOf_join_concat:
  "xs \<noteq> [] \<Longrightarrow> linesOf (join lineFeed xs) = concat (map linesOf xs)"
proof (induction lineFeed xs rule: join.induct)
  case 1
  then show ?case by simp
next
  case (2 x)
  then show ?case by simp
next
  case (3 x y ys)
  then show ?case by (simp add: lineFeed_def linesOf_feed)
qed

lemma sample_multiline:
  "\<not> blank (js ''a'' @ lineFeed @ js ''b'')"
  "linesOf (js ''a'' @ lineFeed @ js ''b'') = [js ''a'', js ''b'']"
  by (simp_all add: blank_simps isWhiteSpace_def js_def lineFeed_def)

text \<open>
  C5 as stated fails: the content of a row comes from a text area and may hold line
  feeds, and such a row takes several lines of the text. One row with the content
  \<open>a\<close>, line feed, \<open>b\<close> is kept and gives two lines.
\<close>

theorem multiline_content_spans_lines:
  "filter (\<lambda>r. trim (content r) \<noteq> []) multilineRows = multilineRows
   \<and> length multilineRows = 1
   \<and> linesOf (scriptText multilineRows) = [js ''a'', js ''b'']"
proof -
  have k: "filter (\<lambda>r. trim (content r) \<noteq> []) multilineRows = multilineRows"
    by (simp add: multilineRows_def trim_empty_iff sample_multiline)
  have "scriptText multilineRows = js ''a'' @ lineFeed @ js ''b''"
    unfolding scriptText_def k
    by (simp add: multilineRows_def renderRow_def trim_def)
  with k show ?thesis by (simp add: sample_multiline) (simp add: multilineRows_def)
qed

text \<open>
  C5, amended. The rendered script text is made of exactly the rows whose content is
  non-blank, in their original order, each rendered as \<open>[timestamp] content\<close> when its
  timestamp is non-blank and as bare content otherwise, and joined by single line feeds
  (the empty text when no row is kept). The lines of the text are the lines of the kept
  rows' renderings, row after row; a row whose timestamp and content hold no line feed
  takes exactly one line, so that the text has one row per line when no kept row holds
  a line feed.
\<close>

theorem script_text_renders_non_blank_rows:
  "scriptText rs = join lineFeed (map specLine (filter (\<lambda>r. \<not> blank (content r)) rs))
   \<and> (filter (\<lambda>r. \<not> blank (content r)) rs = [] \<longrightarrow> scriptText rs = [])
   \<and> (filter (\<lambda>r. \<not> blank (content r)) rs \<noteq> [] \<longrightarrow>
        linesOf (scriptText rs)
          = concat (map (\<lambda>r. linesOf (specLine r)) (filter (\<lambda>r. \<not> blank (content r)) rs)))
   \<and> (\<forall>r \<in> set (filter (\<lambda>r. \<not> blank (content r)) rs).
        0x000A \<notin> set (row_timestamp r) \<and> 0x000A \<notin> set (content r) \<longrightarrow>
        linesOf (specLine r) = [specLine r])
   \<and> (filter (\<lambda>r. \<not> blank (content r)) rs \<noteq> []
        \<and> (\<forall>r \<in> set (filter (\<lambda>r. \<not> blank (content r)) rs).
              0x000A \<notin> set (row_timestamp r) \<and> 0x000A \<notin> set (content r)) \<longrightarrow>
        linesOf (scriptText rs) = map specLine (filter (\<lambda>r. \<not> blank (content r)) rs))"
proof -
  let ?kept = "filter (\<lambda>r. \<not> blank (content r)) rs"
  have eq: "scriptText rs = join lineFeed (map specLine ?kept)"
    using scriptText_specLines [of rs] by (simp add: specLines_def)
  have none: "?kept = [] \<longrightarrow> scriptText rs = []"
    using eq by simp
  have blocks: "?kept \<noteq> [] \<longrightarrow>
      linesOf (scriptText rs) = concat (map (\<lambda>r. linesOf (specLine r)) ?kept)"
  proof
    assume "?kept \<noteq> []"
    then have "map specLine ?kept \<noteq> []" by simp
    from linesOf_join_concat [OF this] eq
    show "linesOf (scriptText rs) = concat (map (\<lambda>r. linesOf (specLine r)) ?kept)"
      by (simp add: comp_def)
  qed
  have one: "\<forall>r \<in> set ?kept.
      0x000A \<notin> set (row_timestamp r) \<and> 0x000A \<notin> set (content r) \<longrightarrow>
      linesOf (specLine r) = [specLine r]"
    using linesOf_single [OF specLine_no_feed] by blast
  have all: "?kept \<noteq> []
        \<and> (\<forall>r \<in> set ?kept. 0x000A \<notin> set (row_timestamp r) \<and> 0x000A \<notin> set (content r)) \<longrightarrow>
        linesOf (scriptText rs) = map specLine ?kept"
  proof
    assume h: "?kept \<noteq> []
        \<and> (\<forall>r \<in> set ?kept. 0x000A \<notin> set (row_timestamp r) \<and> 0x000A \<notin> set (content r))"
    then have ne: "map specLine ?kept \<noteq> []" by simp
    from h have nf: "\<forall>x \<in> set (map specLine ?kept). 0x000A \<notin> set x"
      by (auto simp: specLine_no_feed)
    from linesOf_join [OF ne nf] eq show "linesOf (scriptText rs) = map specLine ?kept"
      by simp
  qed
  from eq none blocks one all show ?thesis by blast
qed

lemma sample_blank:
  "\<not> blank (js ''A hero walks into a bar.'')" "blank [0x0020, 0x3000, 0x0009]"
  "\<not> blank (js ''He orders a drink.'')" "\<not> blank (js ''00:00'')" "blank (js '' '')"
  by (simp_all add: blank_simps isWhiteSpace_def js_def)

theorem script_text_renders_non_blank_rows_witness:
  "scriptText sampleRows
     = js ''[00:00] A hero walks into a bar.'' @ lineFeed @ js ''He orders a drink.''
   \<and> linesOf (scriptText sampleRows)
     = [js ''[00:00] A hero walks into a bar.'', js ''He orders a drink.'']
   \<and> linesOf (scriptText multilineRows)
     = linesOf (js ''a'' @ lineFeed @ js ''b'')"
proof -
  have f: "filter (\<lambda>r. \<not> blank (content r)) sampleRows = [sampleRows ! 0, sampleRows ! 2]"
    by (simp add: sampleRows_def sample_blank)
  have l0: "specLine (sampleRows ! 0) = js ''[00:00] A hero walks into a bar.''"
    by (simp add: sampleRows_def specLine_def sample_blank) (simp add: js_def)
  have l2: "specLine (sampleRows ! 2) = js ''He orders a drink.''"
    by (simp add: sampleRows_def specLine_def sample_blank)
  have ne: "filter (\<lambda>r. \<not> blank (content r)) sampleRows \<noteq> []"
    by (simp add: f)
  have nf: "\<forall>r \<in> set (filter (\<lambda>r. \<not> blank (content r)) sampleRows).
      0x000A \<notin> set (row_timestamp r) \<and> 0x000A \<notin> set (content r)"
    by (simp add: sampleRows_def js_def)
  note t = script_text_renders_non_blank_rows [of sampleRows]
  from t have 1: "scriptText sampleRows
      = join lineFeed (map specLine (filter (\<lambda>r. \<not> blank (content r)) sampleRows))"
    by blast
  from t ne nf have 2: "linesOf (scriptText sampleRows)
      = map specLine (filter (\<lambda>r. \<not> blank (content r)) sampleRows)"
    by blast
  have f': "filter (\<lambda>r. \<not> blank (content r)) multilineRows = multilineRows"
    by (simp add: multilineRows_def sample_multiline)
  have l': "specLine (multilineRows ! 0) = js ''a'' @ lineFeed @ js ''b''"
    by (simp add: multilineRows_def specLine_def blank_simps)
  have m: "multilineRows = [multilineRows ! 0]"
    by (simp add: multilineRows_def)
  from script_text_renders_non_blank_rows [of multilineRows] f' m
  have "linesOf (scriptText multilineRows)
      = concat (map (\<lambda>r. linesOf (specLine r)) multilineRows)"
    by (metis list.distinct(1))
  then have 3: "linesOf (scriptText multilineRows) = linesOf (js ''a'' @ lineFeed @ js ''b'')"
    using m l' by (metis append_Nil2 concat.simps(1) concat.simps(2) list.simps(8) list.simps(9))
  from 1 2 3 show ?thesis by (simp add: f l0 l2)
qed

text \<open>No request is built from rows that are all blank, nor while a generation runs.\<close>

lemma handleSubmit_all_blank:
  assumes "\<forall>r \<in> set rs. blank (content r)"
  shows "handleSubmit st rs se = None"
proof -
  from assms have "filter (\<lambda>r. trim (content r) \<noteq> []) rs = []"
    by (simp add: filter_empty_conv trim_empty_iff)
  then have "scriptText rs = []" by (simp add: scriptText_def)
  then show ?thesis by (simp add: handleSubmit_def trim_def)
qed

lemma handleSubmit_calls:
  "handleSubmit st rs se = Some (txt, se') \<longleftrightarrow>
     \<not> blank (scriptText rs) \<and> st \<noteq> GENERATING \<and> txt = scriptText rs \<and> se' = se"
  by (auto simp: handleSubmit_def trim_empty_iff)

subsection \<open>Response reconciler\<close>

lemma andThen_simps [simp]:
  "andThen (Inl e) f = Inl e" "andThen (Inr x) f = f x"
  by (simp_all add: andThen_def)

lemma getProp_error: "getProp v k = Inl e \<Longrightarrow> e = TypeError \<and> (v = JUndefined \<or> v = JNull)"
  by (cases v) (simp_all split: if_splits)

lemma getProp_defined:
  "v \<noteq> JUndefined \<Longrightarrow> v \<noteq> JNull \<Longrightarrow> \<exists>x. getProp v k = Inr x"
  by (cases v) simp_all

lemma getProp_other_name:
  "getProp v k = Inr x \<Longrightarrow> \<exists>y. getProp v k' = Inr y"
  by (cases v) simp_all

lemma getProp_truthy: "truthy v \<Longrightarrow> \<exists>x. getProp v k = Inr x"
  by (cases v) simp_all

lemma map_of_setProp:
  "map_of (setProp k v kvs) k' = (if k' = k then Some v else map_of kvs k')"
  by (induction kvs) auto

lemma map_of_copied:
  "map_of (foldl (\<lambda>obj k. setProp k (lookup src k) obj) target ks) k'
     = (if k' \<in> set ks then Some (lookup src k') else map_of target k')"
  by (induction ks arbitrary: target) (auto simp: map_of_setProp)

lemma map_of_spread:
  "map_of (spread v target) k
     = (case map_of (ownProps v) k of Some x \<Rightarrow> Some x | None \<Rightarrow> map_of target k)"
proof (cases "map_of (ownProps v) k")
  case None
  then have "k \<notin> set (map fst (ownProps v))"
    by (simp add: map_of_eq_None_iff)
  with None show ?thesis by (simp add: spread_def map_of_copied)
next
  case (Some x)
  then have "k \<in> set (map fst (ownProps v))"
    by (metis map_of_eq_None_iff option.distinct(1) set_map)
  then have "map_of (spread v target) k = Some (lookup (ownProps v) k)"
    by (simp add: spread_def map_of_copied)
  with Some show ?thesis by (simp add: lookup_def)
qed

lemma finalCount_value:
  "getProp scene ''suggestedImageCount'' = Inr suggested \<Longrightarrow>
   finalCount se scene
     = Inr (if defaultImageCount se = 0 then (if truthy suggested then suggested else JNum 1)
            else JNum (defaultImageCount se))"
  by (simp add: finalCount_def)

lemma finalPrompts_defined:
  assumes "getProp scene ''prompts'' = Inr p"
  shows "\<exists>ps. finalPrompts scene = Inr ps"
proof -
  have "truthy (if truthy p then p else JArr [])" by simp
  then obtain len where "getProp (if truthy p then p else JArr []) ''length'' = Inr len"
    using getProp_truthy by blast
  with assms show ?thesis by (simp add: finalPrompts_def Let_def)
qed

lemma finalPrompts_list:
  "getProp scene ''prompts'' = Inr (JArr ps) \<Longrightarrow>
   finalPrompts scene = Inr (if ps = [] then JArr [sentinel] else JArr ps)"
  by (simp add: finalPrompts_def Let_def)

lemma finalPrompts_absent:
  "getProp scene ''prompts'' = Inr p \<Longrightarrow> \<not> truthy p \<Longrightarrow>
   finalPrompts scene = Inr (JArr [sentinel])"
  by (simp add: finalPrompts_def Let_def)

lemma sceneFromReply_object:
  assumes "finalCount se scene = Inr count" and "finalPrompts scene = Inr ps"
    and "getProp scene ''suggestedImageCount'' = Inr suggested"
  shows "sceneFromReply se now i scene
    = Inr (JObj (setProp ''prompts'' ps
              (spread scene
                 [(''id'', JStr (js (''scene-'' @ digits now @ ''-'' @ digits i))),
                  (''imageCount'', count),
                  (''aiSuggestedCount'', suggested)])))"
  using assms by (simp add: sceneFromReply_def)

lemma sceneFromReply_defined:
  assumes "scene \<noteq> JUndefined" and "scene \<noteq> JNull"
  shows "\<exists>obj. sceneFromReply se now i scene = Inr (JObj obj)"
proof -
  from assms obtain suggested where s: "getProp scene ''suggestedImageCount'' = Inr suggested"
    using getProp_defined by blast
  from assms obtain p where p: "getProp scene ''prompts'' = Inr p"
    using getProp_defined by blast
  from finalPrompts_defined [OF p] obtain ps where ps: "finalPrompts scene = Inr ps" ..
  from sceneFromReply_object [OF finalCount_value [OF s] ps s] show ?thesis by blast
qed

lemma sceneFromReply_error: "sceneFromReply se now i scene = Inl e \<Longrightarrow> e = TypeError"
proof (cases "scene = JUndefined \<or> scene = JNull")
  case True
  assume "sceneFromReply se now i scene = Inl e"
  with True show ?thesis
    by (auto simp: sceneFromReply_def finalCount_def finalPrompts_def split: if_splits)
next
  case False
  assume "sceneFromReply se now i scene = Inl e"
  with False sceneFromReply_defined [of scene se now i] show ?thesis by auto
qed

lemma mapScenes_error: "mapScenes se clock i xs = Inl e \<Longrightarrow> e = TypeError"
proof (induction xs arbitrary: i)
  case Nil
  then show ?case by simp
next
  case (Cons x xs)
  show ?case
  proof (cases "sceneFromReply se (clock i) i x")
    case (Inl e')
    with Cons.prems show ?thesis by (auto dest: sceneFromReply_error)
  next
    case (Inr y)
    with Cons show ?thesis
      by (cases "mapScenes se clock (Suc i) xs") auto
  qed
qed

lemma mapScenes_defined:
  "JNull \<notin> set xs \<Longrightarrow> JUndefined \<notin> set xs \<Longrightarrow>
   \<exists>ys. mapScenes se clock i xs = Inr ys \<and> length ys = length xs"
proof (induction xs arbitrary: i)
  case Nil
  then show ?case by simp
next
  case (Cons x xs)
  then have "x \<noteq> JUndefined" "x \<noteq> JNull" by auto
  then obtain obj where o: "sceneFromReply se (clock i) i x = Inr (JObj obj)"
    using sceneFromReply_defined by blast
  from Cons obtain ys where "mapScenes se clock (Suc i) xs = Inr ys \<and> length ys = length xs"
    by fastforce
  with o show ?case by simp
qed

lemma producedField_value:
  assumes "finalCount se scene = Inr count" and "finalPrompts scene = Inr ps"
    and "getProp scene ''suggestedImageCount'' = Inr suggested"
  shows "producedField se now i scene k
     = Inr (if k = ''prompts'' then ps
            else (case map_of (ownProps scene) k of
                    Some x \<Rightarrow> x
                  | None \<Rightarrow> lookup [(''id'', JStr (js (''scene-'' @ digits now @ ''-'' @ digits i))),
                                      (''imageCount'', count),
                                      (''aiSuggestedCount'', suggested)] k))"
  by (simp add: producedField_def sceneFromReply_object [OF assms] lookup_def map_of_setProp
      map_of_spread split: option.splits)

text \<open>
  C2 as stated fails: the reply's element is spread after \<open>imageCount\<close> is set, so an
  element that carries an \<open>imageCount\<close> property of its own overrides the computed
  count. With \<open>defaultImageCount = 2\<close> and an element carrying \<open>imageCount: 7\<close> the
  scene gets 7.
\<close>

theorem image_count_overridden_by_reply:
  "defaultImageCount forcedTwo = 2
   \<and> producedField forcedTwo 1700000000000 0 overridingReply ''imageCount'' = Inr (JNum 7)
   \<and> producedField forcedTwo 1700000000000 0 overridingReply ''imageCount''
       \<noteq> Inr (JNum (defaultImageCount forcedTwo))"
proof -
  have c: "finalCount forcedTwo overridingReply = Inr (JNum 2)"
    by (simp add: finalCount_def forcedTwo_def)
  have p: "finalPrompts overridingReply = Inr (JArr [promptValue, promptValue, promptValue])"
    by (simp add: finalPrompts_def overridingReply_def lookup_def)
  have s: "getProp overridingReply ''suggestedImageCount'' = Inr (JNum 3)"
    by (simp add: overridingReply_def lookup_def)
  have "producedField forcedTwo 1700000000000 0 overridingReply ''imageCount'' = Inr (JNum 7)"
    by (simp add: producedField_value [OF c p s]) (simp add: overridingReply_def)
  then show ?thesis by (simp add: forcedTwo_def)
qed

text \<open>
  C2, amended. For a reply element that is not \<open>null\<close> and has no \<open>imageCount\<close>
  property of its own, the produced scene's \<open>imageCount\<close> is the element's
  \<open>suggestedImageCount\<close> when \<open>defaultImageCount\<close> is 0 (1 when that is absent or
  falsy), and \<open>defaultImageCount\<close> otherwise, whatever the suggestion and the prompts.
\<close>

theorem image_count_of_reply:
  assumes "getProp scene ''suggestedImageCount'' = Inr suggested"
    and "map_of (ownProps scene) ''imageCount'' = None"
  shows "producedField se now i scene ''imageCount''
     = Inr (if defaultImageCount se = 0
            then (if truthy suggested then suggested else JNum 1)
            else JNum (defaultImageCount se))"
proof -
  from getProp_other_name [OF assms(1)] obtain p where "getProp scene ''prompts'' = Inr p"
    by blast
  from finalPrompts_defined [OF this] obtain ps where ps: "finalPrompts scene = Inr ps" ..
  show ?thesis
    by (simp add: producedField_value [OF finalCount_value [OF assms(1)] ps assms(1)] assms(2)
        lookup_def)
qed

theorem image_count_of_reply_witness:
  "producedField DEFAULT_SETTINGS 1700000000000 0 goodReply ''imageCount'' = Inr (JNum 3)
   \<and> producedField forcedTwo 1700000000000 0 goodReply ''imageCount'' = Inr (JNum 2)
   \<and> producedField DEFAULT_SETTINGS 1700000000000 1 bareReply ''imageCount'' = Inr (JNum 1)"
proof -
  have s: "getProp goodReply ''suggestedImageCount'' = Inr (JNum 3)"
    by (simp add: goodReply_def lookup_def)
  have n: "map_of (ownProps goodReply) ''imageCount'' = None"
    by (simp add: goodReply_def)
  have s': "getProp bareReply ''suggestedImageCount'' = Inr JUndefined"
    by (simp add: bareReply_def lookup_def)
  have n': "map_of (ownProps bareReply) ''imageCount'' = None"
    by (simp add: bareReply_def)
  from image_count_of_reply [OF s n, of DEFAULT_SETTINGS 1700000000000 0]
    image_count_of_reply [OF s n, of forcedTwo 1700000000000 0]
    image_count_of_reply [OF s' n', of DEFAULT_SETTINGS 1700000000000 1]
  show ?thesis by (simp add: DEFAULT_SETTINGS_def forcedTwo_def)
qed

text \<open>
  C3 as stated fails: a reply element whose \<open>prompts\<close> is a truthy value that is no
  array passes through unchanged. At \<open>prompts: {}\<close> the length read is \<open>undefined\<close>,
  no sentinel is substituted, and the produced scene's \<open>prompts\<close> is \<open>{}\<close>: not a
  non-empty list.
\<close>

theorem non_list_prompts_pass_through:
  "producedField DEFAULT_SETTINGS 1700000000000 0 objectPromptsReply ''prompts'' = Inr (JObj [])
   \<and> \<not> isArray (JObj [])"
proof -
  have c: "finalCount DEFAULT_SETTINGS objectPromptsReply = Inr (JNum 1)"
    by (simp add: finalCount_def DEFAULT_SETTINGS_def objectPromptsReply_def lookup_def)
  have p: "finalPrompts objectPromptsReply = Inr (JObj [])"
    by (simp add: finalPrompts_def objectPromptsReply_def lookup_def)
  have s: "getProp objectPromptsReply ''suggestedImageCount'' = Inr (JNum 1)"
    by (simp add: objectPromptsReply_def lookup_def)
  show ?thesis by (simp add: producedField_value [OF c p s])
qed

text \<open>
  C3, amended. For a reply element that is not \<open>null\<close> and whose \<open>prompts\<close> is an
  array or is absent (\<open>undefined\<close>, \<open>null\<close> or another falsy value): the produced
  scene takes a non-empty array as it is, and gets, for an empty array or an absent one,
  the one-element list of the sentinel PromptSet with \<open>t2iEn\<close> "Error generating
  prompt", \<open>t2iZh\<close> the seven code units U+751F U+6210 U+63D0 U+793A U+8BCD U+9519
  U+8BEF, \<open>i2vEn\<close> "Error" and \<open>i2vZh\<close> U+9519 U+8BEF. So every scene produced from
  such an element has a non-empty prompts list, and the callback does not throw.
\<close>

theorem prompts_of_reply:
  assumes "getProp scene ''prompts'' = Inr p"
  shows "(\<forall>ps. p = JArr ps \<and> ps \<noteq> [] \<longrightarrow>
            producedField se now i scene ''prompts'' = Inr (JArr ps))
         \<and> (p = JArr [] \<or> \<not> truthy p \<longrightarrow>
            producedField se now i scene ''prompts''
              = Inr (JArr [JObj [(''t2iEn'', JStr (js ''Error generating prompt'')),
                                 (''t2iZh'', JStr [0x751F, 0x6210, 0x63D0, 0x793A, 0x8BCD,
                                                   0x9519, 0x8BEF]),
                                 (''i2vEn'', JStr (js ''Error'')),
                                 (''i2vZh'', JStr [0x9519, 0x8BEF])]]))
         \<and> (isArray p \<or> \<not> truthy p \<longrightarrow>
            (\<exists>ps. producedField se now i scene ''prompts'' = Inr (JArr ps) \<and> ps \<noteq> []))"
proof -
  from getProp_other_name [OF assms] obtain suggested
    where s: "getProp scene ''suggestedImageCount'' = Inr suggested"
    by blast
  note c = finalCount_value [OF s, of se]
  have list: "producedField se now i scene ''prompts''
      = Inr (if ps = [] then JArr [sentinel] else JArr ps)" if "p = JArr ps" for ps
  proof -
    from that assms have "finalPrompts scene = Inr (if ps = [] then JArr [sentinel] else JArr ps)"
      by (simp add: finalPrompts_list)
    from producedField_value [OF c this s] show ?thesis by simp
  qed
  have absent: "producedField se now i scene ''prompts'' = Inr (JArr [sentinel])"
    if "\<not> truthy p"
  proof -
    from finalPrompts_absent [OF assms that] have "finalPrompts scene = Inr (JArr [sentinel])" .
    from producedField_value [OF c this s] show ?thesis by simp
  qed
  have first: "\<forall>ps. p = JArr ps \<and> ps \<noteq> [] \<longrightarrow>
            producedField se now i scene ''prompts'' = Inr (JArr ps)"
    using list by simp
  have second: "p = JArr [] \<or> \<not> truthy p \<longrightarrow>
            producedField se now i scene ''prompts'' = Inr (JArr [sentinel])"
    using list [of "[]"] absent by auto
  have third: "isArray p \<or> \<not> truthy p \<longrightarrow>
            (\<exists>ps. producedField se now i scene ''prompts'' = Inr (JArr ps) \<and> ps \<noteq> [])"
  proof
    assume "isArray p \<or> \<not> truthy p"
    then show "\<exists>ps. producedField se now i scene ''prompts'' = Inr (JArr ps) \<and> ps \<noteq> []"
    proof
      assume "isArray p"
      then obtain xs where "p = JArr xs" by (cases p) simp_all
      from list [OF this] show ?thesis by (cases "xs = []") simp_all
    next
      assume "\<not> truthy p"
      from absent [OF this] show ?thesis by simp
    qed
  qed
  from first second third show ?thesis unfolding sentinel_def by blast
qed

theorem prompts_of_reply_witness:
  "producedField DEFAULT_SETTINGS 1700000000000 0 goodReply ''prompts''
     = Inr (JArr [promptValue, promptValue, promptValue])
   \<and> producedField DEFAULT_SETTINGS 1700000000000 1 bareReply ''prompts''
     = Inr (JArr [JObj [(''t2iEn'', JStr (js ''Error generating prompt'')),
                        (''t2iZh'', JStr [0x751F, 0x6210, 0x63D0, 0x793A, 0x8BCD, 0x9519, 0x8BEF]),
                        (''i2vEn'', JStr (js ''Error'')),
                        (''i2vZh'', JStr [0x9519, 0x8BEF])]])
   \<and> producedField DEFAULT_SETTINGS 1700000000000 2 (JObj []) ''prompts''
     = Inr (JArr [JObj [(''t2iEn'', JStr (js ''Error generating prompt'')),
                        (''t2iZh'', JStr [0x751F, 0x6210, 0x63D0, 0x793A, 0x8BCD, 0x9519, 0x8BEF]),
                        (''i2vEn'', JStr (js ''Error'')),
                        (''i2vZh'', JStr [0x9519, 0x8BEF])]])"
proof -
  have g: "getProp goodReply ''prompts'' = Inr (JArr [promptValue, promptValue, promptValue])"
    by (simp add: goodReply_def lookup_def)
  have b: "getProp bareReply ''prompts'' = Inr (JArr [])"
    by (simp add: bareReply_def lookup_def)
  have e: "getProp (JObj []) ''prompts'' = Inr JUndefined"
    by (simp add: lookup_def)
  from prompts_of_reply [OF g, of DEFAULT_SETTINGS 1700000000000 0]
  have 1: "producedField DEFAULT_SETTINGS 1700000000000 0 goodReply ''prompts''
     = Inr (JArr [promptValue, promptValue, promptValue])"
    by simp
  from prompts_of_reply [OF b, of DEFAULT_SETTINGS 1700000000000 1]
  have 2: "producedField DEFAULT_SETTINGS 1700000000000 1 bareReply ''prompts''
     = Inr (JArr [JObj [(''t2iEn'', JStr (js ''Error generating prompt'')),
                        (''t2iZh'', JStr [0x751F, 0x6210, 0x63D0, 0x793A, 0x8BCD, 0x9519, 0x8BEF]),
                        (''i2vEn'', JStr (js ''Error'')),
                        (''i2vZh'', JStr [0x9519, 0x8BEF])]])"
    by simp
  from prompts_of_reply [OF e, of DEFAULT_SETTINGS 1700000000000 2]
  have 3: "producedField DEFAULT_SETTINGS 1700000000000 2 (JObj []) ''prompts''
     = Inr (JArr [JObj [(''t2iEn'', JStr (js ''Error generating prompt'')),
                        (''t2iZh'', JStr [0x751F, 0x6210, 0x63D0, 0x793A, 0x8BCD, 0x9519, 0x8BEF]),
                        (''i2vEn'', JStr (js ''Error'')),
                        (''i2vZh'', JStr [0x9519, 0x8BEF])]])"
    by simp
  from 1 2 3 show ?thesis by blast
qed

lemma mapScenes_null:
  "JNull \<in> set xs \<Longrightarrow> mapScenes se clock i xs = Inl TypeError"
proof (induction xs arbitrary: i)
  case Nil
  then show ?case by simp
next
  case (Cons x xs)
  show ?case
  proof (cases "sceneFromReply se (clock i) i x")
    case (Inl e)
    then show ?thesis by (auto dest: sceneFromReply_error)
  next
    case (Inr y)
    then have "x \<noteq> JNull"
      by (auto simp: sceneFromReply_def finalCount_def finalPrompts_def split: if_splits)
    with Cons have "mapScenes se clock (Suc i) xs = Inl TypeError" by simp
    with Inr show ?thesis by simp
  qed
qed

text \<open>
  C4 as stated fails: a \<open>scenes\<close> array with a \<open>null\<close> element passes the check and
  the callback then throws a TypeError; a reply that is \<open>null\<close> itself throws a
  TypeError at the check, not the malformed-response error.
\<close>

theorem null_element_raises:
  "isArray (lookup [(''scenes'', JArr [goodReply, JNull])] ''scenes'')
   \<and> scenesOfParsed DEFAULT_SETTINGS fixedClock (JObj [(''scenes'', JArr [goodReply, JNull])])
       = Inl TypeError
   \<and> scenesOfParsed DEFAULT_SETTINGS fixedClock JNull = Inl TypeError"
proof -
  have m: "mapScenes DEFAULT_SETTINGS fixedClock 0 [goodReply, JNull] = Inl TypeError"
    by (rule mapScenes_null) simp
  have "scenesOfParsed DEFAULT_SETTINGS fixedClock (JObj [(''scenes'', JArr [goodReply, JNull])])
      = mapScenes DEFAULT_SETTINGS fixedClock 0 [goodReply, JNull]"
    by (simp add: scenesOfParsed_def lookup_def del: mapScenes.simps)
  with m show ?thesis by (simp add: scenesOfParsed_def lookup_def del: mapScenes.simps)
qed

text \<open>
  C4, amended. For a parsed reply that is not \<open>null\<close>, the reconciler raises its
  malformed-response error exactly when the \<open>scenes\<close> field is absent or not an array;
  when \<open>scenes\<close> is an array without \<open>null\<close> elements it returns a scene list of the
  same length.
\<close>

theorem malformed_response_iff:
  assumes "getProp parsed ''scenes'' = Inr sc"
  shows "(scenesOfParsed se clock parsed = Inl InvalidResponseStructure \<longleftrightarrow> \<not> isArray sc)
         \<and> (\<forall>xs. sc = JArr xs \<and> JNull \<notin> set xs \<and> JUndefined \<notin> set xs \<longrightarrow>
              (\<exists>ys. scenesOfParsed se clock parsed = Inr ys \<and> length ys = length xs))"
proof (cases sc)
  case (JArr xs)
  then have r: "scenesOfParsed se clock parsed = mapScenes se clock 0 xs"
    using assms by (simp add: scenesOfParsed_def)
  have "mapScenes se clock 0 xs \<noteq> Inl InvalidResponseStructure"
    using mapScenes_error [of se clock 0 xs InvalidResponseStructure] by auto
  with r JArr show ?thesis
    by (auto dest: mapScenes_defined [where se = se and clock = clock and i = 0])
qed (use assms in \<open>simp_all add: scenesOfParsed_def\<close>)

theorem malformed_response_iff_witness:
  "scenesOfParsed DEFAULT_SETTINGS fixedClock (JObj []) = Inl InvalidResponseStructure
   \<and> scenesOfParsed DEFAULT_SETTINGS fixedClock (JObj [(''scenes'', JStr (js ''none''))])
       = Inl InvalidResponseStructure
   \<and> (\<exists>ys. scenesOfParsed DEFAULT_SETTINGS fixedClock (JObj [(''scenes'', JArr [goodReply, bareReply])])
             = Inr ys \<and> length ys = 2)"
proof -
  have a: "getProp (JObj []) ''scenes'' = Inr JUndefined"
    by (simp add: lookup_def)
  have b: "getProp (JObj [(''scenes'', JStr (js ''none''))]) ''scenes'' = Inr (JStr (js ''none''))"
    by (simp add: lookup_def)
  have c: "getProp (JObj [(''scenes'', JArr [goodReply, bareReply])]) ''scenes''
      = Inr (JArr [goodReply, bareReply])"
    by (simp add: lookup_def)
  have ok: "JNull \<notin> set [goodReply, bareReply] \<and> JUndefined \<notin> set [goodReply, bareReply]"
    by (simp add: goodReply_def bareReply_def)
  from malformed_response_iff [OF a, of DEFAULT_SETTINGS fixedClock]
  have 1: "scenesOfParsed DEFAULT_SETTINGS fixedClock (JObj []) = Inl InvalidResponseStructure"
    by simp
  from malformed_response_iff [OF b, of DEFAULT_SETTINGS fixedClock]
  have 2: "scenesOfParsed DEFAULT_SETTINGS fixedClock (JObj [(''scenes'', JStr (js ''none''))])
       = Inl InvalidResponseStructure"
    by simp
  from malformed_response_iff [OF c, of DEFAULT_SETTINGS fixedClock] ok
  have 3: "\<exists>ys. scenesOfParsed DEFAULT_SETTINGS fixedClock (JObj [(''scenes'', JArr [goodReply, bareReply])])
             = Inr ys \<and> length ys = 2"
    by (auto simp: numeral_2_eq_2)
  from 1 2 3 show ?thesis by blast
qed

text \<open>The whole function is the reconciler applied to what \<open>JSON.parse\<close> returns.\<close>

lemma generateFullScriptAnalysis_parsed:
  assumes "parse (case text of None \<Rightarrow> js ''{}'' | Some t \<Rightarrow> if t \<noteq> [] then t else js ''{}'')
             = Inr parsed"
  shows "generateFullScriptAnalysis parse clock (Inr text) se = scenesOfParsed se clock parsed"
  using assms by (simp add: generateFullScriptAnalysis_def)

end
